theory Spec2Isabelle
  imports Complex_Main
begin

section \<open>JavaScript values\<close>

text \<open>
  The handlers are JavaScript running on JSON request bodies and on documents read back
  from the document store, so every field may hold any JSON value. A number is a double
  in the source; here a finite number is an exact rational (no rounding, no overflow,
  no negative zero), next to the three special values.
\<close>

datatype jsnum = NaN | NegInf | Fin rat | PosInf

datatype jsval =
    JUndef
  | JNull
  | JBool bool
  | JNum jsnum
  | JStr string
  | JArr "jsval list"
  | JObj "(string \<times> jsval) list"

type_synonym item = "(string \<times> jsval) list"

text \<open>Truthiness, as \<open>!x\<close>, \<open>x || y\<close> and \<open>if (x)\<close> read it.\<close>

fun truthy :: "jsval \<Rightarrow> bool" where
  "truthy JUndef = False"
| "truthy JNull = False"
| "truthy (JBool b) = b"
| "truthy (JNum NaN) = False"
| "truthy (JNum (Fin q)) = (q \<noteq> 0)"
| "truthy (JNum _) = True"
| "truthy (JStr s) = (s \<noteq> [])"
| "truthy (JArr _) = True"
| "truthy (JObj _) = True"

text \<open>
  Property read \<open>v.k\<close> on a value that is neither null nor undefined: an own key of an
  object, the \<open>length\<close> of a string or an array, undefined otherwise. (The keys the
  handlers read are not names of built-in methods.)
\<close>

fun js_get :: "jsval \<Rightarrow> string \<Rightarrow> jsval" where
  "js_get (JObj kvs) k = (case map_of kvs k of Some v \<Rightarrow> v | None \<Rightarrow> JUndef)"
| "js_get (JStr s) k = (if k = ''length'' then JNum (Fin (of_nat (length s))) else JUndef)"
| "js_get (JArr xs) k = (if k = ''length'' then JNum (Fin (of_nat (length xs))) else JUndef)"
| "js_get _ k = JUndef"

text \<open>Writing a key of an object literal: an existing key keeps its place.\<close>

fun obj_set :: "item \<Rightarrow> string \<Rightarrow> jsval \<Rightarrow> item" where
  "obj_set [] k v = [(k, v)]"
| "obj_set ((k', v') # kvs) k v =
     (if k' = k then (k, v) # kvs else (k', v') # obj_set kvs k v)"

text \<open>\<open>const { k: _, ...rest } = obj\<close>: the object without the key.\<close>

definition obj_without :: "string \<Rightarrow> item \<Rightarrow> item" where
  "obj_without k kvs = filter (\<lambda>kv. fst kv \<noteq> k) kvs"

subsection \<open>Strings\<close>

text \<open>
  A string is a sequence of characters with code points below 256, one code unit each,
  so \<open>length\<close> is the list's length. Of these, \<open>trim\<close>, \<open>Number\<close> and \<open>parseInt\<close> take
  as white space the space, tab, line feed, vertical tab, form feed, carriage return
  and the no-break space U+00A0; \<open>toLowerCase\<close> lowers A to Z and the capital letters
  U+00C0 to U+00DE (U+00D7, the multiplication sign, is no letter). Strings with
  characters beyond U+00FF are outside the model.
\<close>

definition is_ws :: "char \<Rightarrow> bool" where
  "is_ws c =
     (c \<in> set [CHR '' '', CHR 0x09, CHR 0x0A, CHR 0x0B, CHR 0x0C, CHR 0x0D, CHR 0xA0])"

definition trim_start :: "string \<Rightarrow> string" where
  "trim_start s = dropWhile is_ws s"

definition trim :: "string \<Rightarrow> string" where
  "trim s = rev (dropWhile is_ws (rev (dropWhile is_ws s)))"

definition upper_chars :: string where
  "upper_chars =
     ''ABCDEFGHIJKLMNOPQRSTUVWXYZ''
     @ [
        CHR 0xC0, CHR 0xC1, CHR 0xC2, CHR 0xC3, CHR 0xC4, CHR 0xC5, CHR 0xC6, CHR 0xC7,
        CHR 0xC8, CHR 0xC9, CHR 0xCA, CHR 0xCB, CHR 0xCC, CHR 0xCD, CHR 0xCE, CHR 0xCF,
        CHR 0xD0, CHR 0xD1, CHR 0xD2, CHR 0xD3, CHR 0xD4, CHR 0xD5, CHR 0xD6, CHR 0xD8,
        CHR 0xD9, CHR 0xDA, CHR 0xDB, CHR 0xDC, CHR 0xDD, CHR 0xDE]"

definition lower_chars :: string where
  "lower_chars =
     ''abcdefghijklmnopqrstuvwxyz''
     @ [
        CHR 0xE0, CHR 0xE1, CHR 0xE2, CHR 0xE3, CHR 0xE4, CHR 0xE5, CHR 0xE6, CHR 0xE7,
        CHR 0xE8, CHR 0xE9, CHR 0xEA, CHR 0xEB, CHR 0xEC, CHR 0xED, CHR 0xEE, CHR 0xEF,
        CHR 0xF0, CHR 0xF1, CHR 0xF2, CHR 0xF3, CHR 0xF4, CHR 0xF5, CHR 0xF6, CHR 0xF8,
        CHR 0xF9, CHR 0xFA, CHR 0xFB, CHR 0xFC, CHR 0xFD, CHR 0xFE]"

definition lower_char :: "char \<Rightarrow> char" where
  "lower_char c = (case map_of (zip upper_chars lower_chars) c of Some d \<Rightarrow> d | None \<Rightarrow> c)"

definition toLowerCase :: "string \<Rightarrow> string" where
  "toLowerCase s = map lower_char s"

definition startsWith :: "string \<Rightarrow> string \<Rightarrow> bool" where
  "startsWith s p = (take (length p) s = p)"

subsection \<open>Numbers\<close>

fun num_lt :: "jsnum \<Rightarrow> jsnum \<Rightarrow> bool" where
  "num_lt NaN _ = False"
| "num_lt _ NaN = False"
| "num_lt NegInf NegInf = False"
| "num_lt NegInf _ = True"
| "num_lt _ NegInf = False"
| "num_lt PosInf _ = False"
| "num_lt _ PosInf = True"
| "num_lt (Fin a) (Fin b) = (a < b)"

fun num_le :: "jsnum \<Rightarrow> jsnum \<Rightarrow> bool" where
  "num_le NaN _ = False"
| "num_le _ NaN = False"
| "num_le a b = (a = b \<or> num_lt a b)"

fun num_add :: "jsnum \<Rightarrow> jsnum \<Rightarrow> jsnum" where
  "num_add NaN _ = NaN"
| "num_add _ NaN = NaN"
| "num_add (Fin a) (Fin b) = Fin (a + b)"
| "num_add PosInf NegInf = NaN"
| "num_add NegInf PosInf = NaN"
| "num_add PosInf _ = PosInf"
| "num_add _ PosInf = PosInf"
| "num_add NegInf _ = NegInf"
| "num_add _ NegInf = NegInf"

fun num_neg :: "jsnum \<Rightarrow> jsnum" where
  "num_neg NaN = NaN"
| "num_neg NegInf = PosInf"
| "num_neg PosInf = NegInf"
| "num_neg (Fin a) = Fin (- a)"

definition num_sub :: "jsnum \<Rightarrow> jsnum \<Rightarrow> jsnum" where
  "num_sub a b = num_add a (num_neg b)"

text \<open>Multiplication and division by a positive finite constant (the only uses).\<close>

fun num_scale :: "rat \<Rightarrow> jsnum \<Rightarrow> jsnum" where
  "num_scale c (Fin a) = Fin (c * a)"
| "num_scale c x = x"

text \<open>\<open>Math.round\<close>: the nearest integer, a half going up.\<close>

fun math_round :: "jsnum \<Rightarrow> jsnum" where
  "math_round (Fin a) = Fin (of_int \<lfloor>a + 1 / 2\<rfloor>)"
| "math_round x = x"

definition isNaN :: "jsnum \<Rightarrow> bool" where
  "isNaN n = (n = NaN)"

subsection \<open>Numeric literals in strings\<close>

definition digit_chars :: string where
  "digit_chars = ''0123456789abcdefABCDEF''"

definition digit_vals :: "nat list" where
  "digit_vals = [0, 1, 2, 3, 4, 5, 6, 7, 8, 9, 10, 11, 12, 13, 14, 15, 10, 11, 12, 13, 14, 15]"

definition digit_of :: "nat \<Rightarrow> char \<Rightarrow> nat option" where
  "digit_of radix c =
     (case map_of (zip digit_chars digit_vals) c of
        Some d \<Rightarrow> (if d < radix then Some d else None)
      | None \<Rightarrow> None)"

definition is_digit :: "nat \<Rightarrow> char \<Rightarrow> bool" where
  "is_digit radix c = (digit_of radix c \<noteq> None)"

definition digits_val :: "nat \<Rightarrow> string \<Rightarrow> nat" where
  "digits_val radix s = foldl (\<lambda>a c. radix * a + (case digit_of radix c of Some d \<Rightarrow> d | None \<Rightarrow> 0)) 0 s"

definition pow10 :: "int \<Rightarrow> rat" where
  "pow10 e = (if 0 \<le> e then 10 ^ nat e else 1 / 10 ^ nat (- e))"

text \<open>The sign of a literal: the factor and the rest.\<close>

fun take_sign :: "string \<Rightarrow> rat \<times> string" where
  "take_sign (c # cs) =
     (if c = CHR ''-'' then (- 1, cs) else if c = CHR ''+'' then (1, cs) else (1, c # cs))"
| "take_sign [] = (1, [])"

text \<open>
  The exponent part of a decimal literal, when a complete one starts the string:
  \<open>e\<close> or \<open>E\<close>, a sign or none, one digit at least.
\<close>

definition take_exponent :: "string \<Rightarrow> (int \<times> string) option" where
  "take_exponent s =
     (case s of
        [] \<Rightarrow> None
      | c # cs \<Rightarrow>
          if c = CHR ''e'' \<or> c = CHR ''E'' then
            (let (sg, r) = take_sign cs;
                 ds = takeWhile (is_digit 10) r
             in if ds = [] then None
                else Some ((if sg < 0 then - 1 else 1) * int (digits_val 10 ds),
                           dropWhile (is_digit 10) r))
          else None)"

text \<open>
  The longest prefix that is an unsigned decimal literal (\<open>12\<close>, \<open>12.\<close>, \<open>12.5\<close>,
  \<open>.5\<close>, each with an exponent or none): its value and the rest of the string.
\<close>

definition take_decimal :: "string \<Rightarrow> (rat \<times> string) option" where
  "take_decimal s =
     (let ip = takeWhile (is_digit 10) s;
          r1 = dropWhile (is_digit 10) s;
          dot = (r1 \<noteq> [] \<and> hd r1 = CHR ''.'');
          fp = (if dot then takeWhile (is_digit 10) (tl r1) else []);
          r2 = (if dot then dropWhile (is_digit 10) (tl r1) else r1)
      in if ip = [] \<and> fp = [] then None
         else
           (let m = of_nat (digits_val 10 ip)
                    + of_nat (digits_val 10 fp) / 10 ^ length fp
            in case take_exponent r2 of
                 Some (e, r3) \<Rightarrow> Some (m * pow10 e, r3)
               | None \<Rightarrow> Some (m, r2)))"

text \<open>A signed decimal literal or \<open>Infinity\<close> at the start of the string.\<close>

definition take_signed_decimal :: "string \<Rightarrow> (jsnum \<times> string) option" where
  "take_signed_decimal s =
     (let (sg, r) = take_sign s
      in if startsWith r ''Infinity''
         then Some (if sg < 0 then NegInf else PosInf, drop 8 r)
         else (case take_decimal r of
                 Some (v, r') \<Rightarrow> Some (Fin (sg * v), r')
               | None \<Rightarrow> None))"

text \<open>\<open>parseFloat\<close> of a string: leading white space, then the longest literal.\<close>

definition parseFloat_str :: "string \<Rightarrow> jsnum" where
  "parseFloat_str s =
     (case take_signed_decimal (trim_start s) of Some (v, _) \<Rightarrow> v | None \<Rightarrow> NaN)"

text \<open>
  \<open>parseInt\<close> of a string with no radix given: leading white space, a sign, \<open>0x\<close> for
  radix 16, then the digits up to the first character that is none.
\<close>

definition parseInt_str :: "string \<Rightarrow> jsnum" where
  "parseInt_str s =
     (let (sg, r) = take_sign (trim_start s);
          hex = (startsWith r ''0x'' \<or> startsWith r ''0X'');
          radix = (if hex then 16 else 10);
          ds = takeWhile (is_digit radix) (if hex then drop 2 r else r)
      in if ds = [] then NaN else Fin (sg * of_nat (digits_val radix ds)))"

text \<open>
  \<open>Number(s)\<close>: the whole string, trimmed, is empty, an unsigned integer in radix 16, 8
  or 2 behind its prefix, or a signed decimal literal; anything else is NaN.
\<close>

definition prefixed_int :: "string \<Rightarrow> jsnum option" where
  "prefixed_int t =
     (let radix =
            (if startsWith t ''0x'' \<or> startsWith t ''0X'' then 16
             else if startsWith t ''0o'' \<or> startsWith t ''0O'' then 8
             else if startsWith t ''0b'' \<or> startsWith t ''0B'' then 2
             else 0);
          ds = drop 2 t
      in if radix \<noteq> 0 \<and> ds \<noteq> [] \<and> list_all (is_digit radix) ds
         then Some (Fin (of_nat (digits_val radix ds))) else None)"

definition string_to_number :: "string \<Rightarrow> jsnum" where
  "string_to_number s =
     (let t = trim s
      in if t = [] then Fin 0
         else (case prefixed_int t of
                 Some v \<Rightarrow> v
               | None \<Rightarrow>
                   (case take_signed_decimal t of
                      Some (v, r) \<Rightarrow> (if r = [] then v else NaN)
                    | None \<Rightarrow> NaN)))"

subsection \<open>Coercions\<close>

text \<open>
  \<open>Number(v)\<close>, which \<open>v < 1\<close>, \<open>v > 5\<close> and \<open>v <= 0\<close> apply to \<open>v\<close>. An array is
  read through its string form: its elements joined by commas, null and undefined
  as the empty string.
\<close>

fun to_number :: "jsval \<Rightarrow> jsnum" where
  "to_number JUndef = NaN"
| "to_number JNull = Fin 0"
| "to_number (JBool b) = Fin (if b then 1 else 0)"
| "to_number (JNum n) = n"
| "to_number (JStr s) = string_to_number s"
| "to_number (JArr []) = Fin 0"
| "to_number (JArr [JUndef]) = Fin 0"
| "to_number (JArr [JNull]) = Fin 0"
| "to_number (JArr [JBool b]) = NaN"
| "to_number (JArr [JNum n]) = n"
| "to_number (JArr [JStr s]) = string_to_number s"
| "to_number (JArr [JArr xs]) = to_number (JArr xs)"
| "to_number (JArr [JObj kvs]) = NaN"
| "to_number (JArr (x # y # ys)) = NaN"
| "to_number (JObj kvs) = NaN"

definition js_lt :: "jsval \<Rightarrow> rat \<Rightarrow> bool" where
  "js_lt v c = num_lt (to_number v) (Fin c)"

definition js_gt :: "jsval \<Rightarrow> rat \<Rightarrow> bool" where
  "js_gt v c = num_lt (Fin c) (to_number v)"

definition js_le :: "jsval \<Rightarrow> rat \<Rightarrow> bool" where
  "js_le v c = num_le (to_number v) (Fin c)"

text \<open>
  \<open>parseFloat(v)\<close> and \<open>parseInt(v)\<close> parse the string form of \<open>v\<close>. The string form of
  a number parses back to the number; \<open>parseInt\<close> stops at its decimal point, or, when
  the number prints with an exponent (below \<open>1e-6\<close> or from \<open>1e21\<close> on), after
  its leading digit.
\<close>

fun parseFloat :: "jsval \<Rightarrow> jsnum" where
  "parseFloat (JStr s) = parseFloat_str s"
| "parseFloat (JNum n) = n"
| "parseFloat (JArr (x # xs)) = parseFloat x"
| "parseFloat _ = NaN"

fun ndigits :: "nat \<Rightarrow> nat" where
  "ndigits n = (if n < 10 then 1 else Suc (ndigits (n div 10)))"

definition leading_digit :: "rat \<Rightarrow> nat" where
  "leading_digit q =
     (if 1 \<le> q then (let n = nat \<lfloor>q\<rfloor> in n div 10 ^ (ndigits n - 1))
      else (let l = ndigits (nat \<lfloor>1 / q\<rfloor>);
                k = (if 1 \<le> q * 10 ^ (l - 1) then l - 1 else l)
            in nat \<lfloor>q * 10 ^ k\<rfloor>))"

fun parseInt_num :: "jsnum \<Rightarrow> jsnum" where
  "parseInt_num (Fin q) =
     (if q = 0 then Fin 0
      else if \<bar>q\<bar> < 1 / 10 ^ 6 \<or> 10 ^ 21 \<le> \<bar>q\<bar> then Fin (sgn q * of_nat (leading_digit \<bar>q\<bar>))
      else Fin (sgn q * of_int \<lfloor>\<bar>q\<bar>\<rfloor>))"
| "parseInt_num _ = NaN"

fun parseInt :: "jsval \<Rightarrow> jsnum" where
  "parseInt (JStr s) = parseInt_str s"
| "parseInt (JNum n) = parseInt_num n"
| "parseInt (JArr (x # xs)) = parseInt x"
| "parseInt _ = NaN"

text \<open>
  The string form of a value, for \<open>+\<close> on a string. How a number prints is the engine's
  (\<open>ns\<close>).
\<close>

fun join_commas :: "string list \<Rightarrow> string" where
  "join_commas [] = []"
| "join_commas [s] = s"
| "join_commas (s # t # ts) = s @ '','' @ join_commas (t # ts)"

fun to_string :: "(jsnum \<Rightarrow> string) \<Rightarrow> jsval \<Rightarrow> string" where
  "to_string ns JUndef = ''undefined''"
| "to_string ns JNull = ''null''"
| "to_string ns (JBool b) = (if b then ''true'' else ''false'')"
| "to_string ns (JNum n) = ns n"
| "to_string ns (JStr s) = s"
| "to_string ns (JArr xs) =
     join_commas (map (\<lambda>x. if x = JUndef \<or> x = JNull then [] else to_string ns x) xs)"
| "to_string ns (JObj kvs) = ''[object Object]''"

text \<open>\<open>a + b\<close>: concatenation once either side is a string, an array or an object.\<close>

fun stringish :: "jsval \<Rightarrow> bool" where
  "stringish (JStr s) = True"
| "stringish (JArr xs) = True"
| "stringish (JObj kvs) = True"
| "stringish _ = False"

definition js_add :: "(jsnum \<Rightarrow> string) \<Rightarrow> jsval \<Rightarrow> jsval \<Rightarrow> jsval" where
  "js_add ns a b =
     (if stringish a \<or> stringish b then JStr (to_string ns a @ to_string ns b)
      else JNum (num_add (to_number a) (to_number b)))"

text \<open>
  \<open>{...v}\<close>: the own keys of an object; of an array or a string, its elements under
  their indices; nothing of any other value. The index keys are written by the
  engine's \<open>ns\<close>.
\<close>

fun js_spread :: "(jsnum \<Rightarrow> string) \<Rightarrow> jsval \<Rightarrow> item" where
  "js_spread ns (JObj kvs) = kvs"
| "js_spread ns (JArr xs) = map (\<lambda>i. (ns (Fin (of_nat i)), xs ! i)) [0..<length xs]"
| "js_spread ns (JStr s) = map (\<lambda>i. (ns (Fin (of_nat i)), JStr [s ! i])) [0..<length s]"
| "js_spread ns _ = []"

section \<open>The document store\<close>

text \<open>
  The store is the external collaborator: five tables of documents, each addressed by
  its primary key attribute. A command sent to it either throws or answers; which
  commands throw (a missing index, a rejected request, an outage) is the environment's
  choice (\<open>faults\<close>). A query answers with the documents of the index whose key
  attribute equals the value, cut to \<open>Limit\<close> and then filtered; a scan answers with the
  documents of the table that pass the filter.

  One request reads one page: the store stops reading after 1 MB of documents (of the
  key's documents for a query, of the table for a scan), filters what it has read, and
  answers with that and a continuation key. No handler of the repository reads the
  continuation key or sends a second request, so what a handler sees of a lookup is
  the first page. The size of a document is the store's affair and a parameter here;
  the store holds no document above 400 KB, so a page always has room for the first
  two documents. An index holds the documents of its table, in the table's order, and
  is up to date with it.
\<close>

datatype tbl = UsersT | StorefrontsT | ItemsT | ReviewsT | OrdersT

text \<open>
  Modelled from the spec: the infrastructure template that declares the tables and
  their indexes is not among the sources. Each table is addressed by one primary key
  attribute: the one the handlers name in \<open>Key\<close> (\<open>userId\<close>, \<open>storeId\<close>, \<open>id\<close>), and for
  reviews and orders the identifier their handlers generate.
\<close>

fun key_attr :: "tbl \<Rightarrow> string" where
  "key_attr UsersT = ''userId''"
| "key_attr StorefrontsT = ''storeId''"
| "key_attr ItemsT = ''id''"
| "key_attr ReviewsT = ''reviewId''"
| "key_attr OrdersT = ''orderId''"

type_synonym db = "tbl \<Rightarrow> item list"

text \<open>A condition \<open>attr = :value\<close>; a filter expression is a conjunction of them.\<close>

type_synonym cond = "string \<times> jsval"

datatype query_cmd =
  QueryCommand (TableName: tbl) (IndexName: string) (KeyConditionExpression: cond)
    (FilterExpression: "cond list") (Limit: "nat option")

datatype scan_cmd = ScanCommand (ScanTableName: tbl) (ScanFilterExpression: "cond list")

datatype dbop =
    OpQuery query_cmd
  | OpScan scan_cmd
  | OpGet tbl cond
  | OpPut tbl item
  | OpUpdate tbl cond cond

definition holds :: "cond \<Rightarrow> item \<Rightarrow> bool" where
  "holds c it = (map_of it (fst c) = Some (snd c))"

definition holds_all :: "cond list \<Rightarrow> item \<Rightarrow> bool" where
  "holds_all cs it = list_all (\<lambda>c. holds c it) cs"

definition page_bytes :: nat where
  "page_bytes = 1048576"

definition max_item_bytes :: nat where
  "max_item_bytes = 409600"

text \<open>
  The documents one request reads: the longest prefix whose sizes add up to no more
  than the budget.
\<close>

fun first_page :: "(item \<Rightarrow> nat) \<Rightarrow> nat \<Rightarrow> item list \<Rightarrow> item list" where
  "first_page sz b [] = []"
| "first_page sz b (x # xs) = (if sz x \<le> b then x # first_page sz (b - sz x) xs else [])"

definition run_query :: "(item \<Rightarrow> nat) \<Rightarrow> db \<Rightarrow> query_cmd \<Rightarrow> item list" where
  "run_query sz st c =
     (let hits = filter (holds (KeyConditionExpression c)) (st (TableName c));
          page = first_page sz page_bytes hits;
          limited = (case Limit c of None \<Rightarrow> page | Some n \<Rightarrow> take n page)
      in filter (holds_all (FilterExpression c)) limited)"

definition run_scan :: "(item \<Rightarrow> nat) \<Rightarrow> db \<Rightarrow> scan_cmd \<Rightarrow> item list" where
  "run_scan sz st c =
     filter (holds_all (ScanFilterExpression c))
       (first_page sz page_bytes (st (ScanTableName c)))"

text \<open>
  The document client refuses, before anything is sent, a document that holds
  undefined, NaN or an infinity.
\<close>

fun marshallable :: "jsval \<Rightarrow> bool" where
  "marshallable JUndef = False"
| "marshallable (JNum (Fin q)) = True"
| "marshallable (JNum n) = False"
| "marshallable (JArr xs) = list_all marshallable xs"
| "marshallable (JObj kvs) = list_all marshallable (map snd kvs)"
| "marshallable v = True"

text \<open>Put replaces the document with the same primary key, or adds one.\<close>

definition put_item :: "string \<Rightarrow> item \<Rightarrow> item list \<Rightarrow> item list" where
  "put_item k it xs =
     (if list_ex (\<lambda>x. map_of x k = map_of it k) xs
      then map (\<lambda>x. if map_of x k = map_of it k then it else x) xs
      else xs @ [it])"

text \<open>
  Update with \<open>SET attr = :v\<close>: on the document with the key; when there is none, a new
  document of the key and the attribute.
\<close>

definition update_item :: "cond \<Rightarrow> cond \<Rightarrow> item list \<Rightarrow> item list" where
  "update_item key upd xs =
     (if list_ex (holds key) xs
      then map (\<lambda>x. if holds key x then obj_set x (fst upd) (snd upd) else x) xs
      else xs @ [[key, upd]])"

section \<open>The environment of one invocation\<close>

text \<open>
  What an invocation takes from outside the repository: which store commands throw
  and with what message, the size the store gives a document, the identifier
  \<open>uuidv4()\<close> returns, the clock readings, the password hashing and token signing
  primitives, the engine's date parsing and number printing. \<open>jwt.sign\<close> throws when
  it is given no secret (\<open>JWT_SECRET\<close> is read from the process environment and has
  no default): \<open>None\<close> is that exception.
\<close>

record env =
  faults :: "dbop \<Rightarrow> bool"
  fault_message :: "dbop \<Rightarrow> string"
  doc_size :: "item \<Rightarrow> nat"
  uuidv4 :: string
  clock :: "nat \<Rightarrow> string"
  bcrypt_hash :: "string \<Rightarrow> string"
  bcrypt_compare :: "string \<Rightarrow> string \<Rightarrow> bool"
  jwt_sign :: "item \<Rightarrow> string option"
  jwt_verify :: "string \<Rightarrow> jsval option"
  date_value :: "jsval \<Rightarrow> jsnum"
  number_to_string :: "jsnum \<Rightarrow> string"

text \<open>The size of a document in a page: what the store says, at most 400 KB.\<close>

definition doc_bytes :: "env \<Rightarrow> item \<Rightarrow> nat" where
  "doc_bytes e it = min (doc_size e it) max_item_bytes"

text \<open>
  \<open>docClient.send(command)\<close>: \<open>None\<close> is a thrown exception. The values of a
  command are marshalled like a document. A write that throws has not been applied.
\<close>

definition send_query :: "env \<Rightarrow> db \<Rightarrow> query_cmd \<Rightarrow> item list option" where
  "send_query e st c =
     (if faults e (OpQuery c)
         \<or> \<not> list_all marshallable (map snd (KeyConditionExpression c # FilterExpression c))
      then None else Some (run_query (doc_bytes e) st c))"

definition send_scan :: "env \<Rightarrow> db \<Rightarrow> scan_cmd \<Rightarrow> item list option" where
  "send_scan e st c =
     (if faults e (OpScan c) \<or> \<not> list_all marshallable (map snd (ScanFilterExpression c))
      then None else Some (run_scan (doc_bytes e) st c))"

definition send_get :: "env \<Rightarrow> db \<Rightarrow> tbl \<Rightarrow> cond \<Rightarrow> item option option" where
  "send_get e st t key =
     (if faults e (OpGet t key) \<or> \<not> marshallable (snd key) then None
      else Some (find (holds key) (st t)))"

definition send_put :: "env \<Rightarrow> db \<Rightarrow> tbl \<Rightarrow> item \<Rightarrow> db option" where
  "send_put e st t it =
     (if faults e (OpPut t it) \<or> \<not> marshallable (JObj it) \<or> map_of it (key_attr t) = None
      then None
      else Some (st(t := put_item (key_attr t) it (st t))))"

definition send_update :: "env \<Rightarrow> db \<Rightarrow> tbl \<Rightarrow> cond \<Rightarrow> cond \<Rightarrow> db option" where
  "send_update e st t key upd =
     (if faults e (OpUpdate t key upd) \<or> \<not> marshallable (snd key) \<or> \<not> marshallable (snd upd)
      then None
      else Some (st(t := update_item key upd (st t))))"

section \<open>Requests and responses\<close>

text \<open>
  The event carries the request: its headers, the body (absent, not JSON, or a JSON
  value), the query string and path parameters, the path.
\<close>

datatype body_in = NoBody | BadJson | Json jsval

record event =
  ev_headers :: "(string \<times> string) list"
  ev_body :: body_in
  ev_query :: "(string \<times> string) list"
  ev_pathParameters :: "(string \<times> string) list"
  ev_path :: "string option"

text \<open>
  A handler returns a response (status code and body; the body is the value handed to
  \<open>JSON.stringify\<close>, and every response also carries the fixed CORS headers) or throws.
  What it throws is caught by the module's \<open>exports.handler\<close>, which answers 500 with
  the exception's message in the \<open>error\<close> field.
\<close>

datatype outcome = Resp nat jsval | Thrown

definition sendResponse :: "nat \<Rightarrow> jsval \<Rightarrow> outcome" where
  "sendResponse statusCode b = Resp statusCode b"

definition err :: "string \<Rightarrow> jsval" where
  "err msg = JObj [(''error'', JStr msg)]"

text \<open>\<open>JSON.parse(event.body || '{}')\<close>, then destructuring, which throws on null.\<close>

fun parse_body :: "body_in \<Rightarrow> jsval option" where
  "parse_body NoBody = Some (JObj [])"
| "parse_body BadJson = None"
| "parse_body (Json JNull) = None"
| "parse_body (Json JUndef) = None"
| "parse_body (Json v) = Some v"

text \<open>
  \<open>verifyToken\<close>: the bearer token of the Authorization header, verified; null when
  the header is missing or not a bearer token, or when verification throws.
\<close>

definition auth_header :: "event \<Rightarrow> string option" where
  "auth_header ev =
     (case map_of (ev_headers ev) ''Authorization'' of
        Some s \<Rightarrow> (if s \<noteq> [] then Some s else map_of (ev_headers ev) ''authorization'')
      | None \<Rightarrow> map_of (ev_headers ev) ''authorization'')"

definition verifyToken :: "env \<Rightarrow> event \<Rightarrow> jsval" where
  "verifyToken e ev =
     (case auth_header ev of
        None \<Rightarrow> JNull
      | Some s \<Rightarrow>
          if s = [] \<or> \<not> startsWith s ''Bearer '' then JNull
          else (case jwt_verify e (drop 7 s) of None \<Rightarrow> JNull | Some d \<Rightarrow> d))"

definition unauthorized :: outcome where
  "unauthorized = sendResponse 401 (err ''Unauthorized: Invalid or missing token'')"

section \<open>Orders\<close>

definition ordersQuery :: "jsval \<Rightarrow> query_cmd" where
  "ordersQuery userId = QueryCommand OrdersT ''UserIdIndex'' (''userId'', userId) [] None"

definition ordersScan :: "jsval \<Rightarrow> scan_cmd" where
  "ordersScan userId = ScanCommand OrdersT [(''userId'', userId)]"

text \<open>
  One line of an order, with the catalogue item looked up by its key. A lookup that
  throws, or finds nothing, leaves \<open>itemDetails\<close> null. A line that is null throws when
  its \<open>itemId\<close> is read, and again in the catch block that logs it: \<open>None\<close>.
\<close>

definition enrich_line :: "env \<Rightarrow> db \<Rightarrow> jsval \<Rightarrow> jsval option" where
  "enrich_line e st line =
     (if line = JNull \<or> line = JUndef then None
      else Some (JObj (obj_set (js_spread (number_to_string e) line) ''itemDetails''
        (case send_get e st ItemsT (''id'', js_get line ''itemId'') of
           None \<Rightarrow> JNull
         | Some None \<Rightarrow> JNull
         | Some (Some x) \<Rightarrow> JObj x))))"

definition enrich_order :: "env \<Rightarrow> db \<Rightarrow> item \<Rightarrow> jsval option" where
  "enrich_order e st order =
     (case js_get (JObj order) ''items'' of
        JArr lns \<Rightarrow>
          (case those (map (enrich_line e st) lns) of
             None \<Rightarrow> None
           | Some els \<Rightarrow> Some (JObj (obj_set order ''items'' (JArr els))))
      | _ \<Rightarrow> Some (JObj order))"

definition handleGetOrders :: "env \<Rightarrow> db \<Rightarrow> event \<Rightarrow> outcome \<times> db" where
  "handleGetOrders e st ev =
     (let decoded = verifyToken e ev in
      if \<not> truthy decoded then (unauthorized, st)
      else
        (let userId = js_get decoded ''userId'' in
         case (case send_query e st (ordersQuery userId) of
                 Some r \<Rightarrow> Some r
               | None \<Rightarrow> send_scan e st (ordersScan userId)) of
           None \<Rightarrow> (sendResponse 500 (err ''Failed to get orders''), st)
         | Some orders \<Rightarrow>
             (case those (map (enrich_order e st) orders) of
                None \<Rightarrow> (sendResponse 500 (err ''Failed to get orders''), st)
              | Some enriched \<Rightarrow>
                  (sendResponse 200 (JObj [(''orders'', JArr enriched)]), st))))"

fun is_array :: "jsval \<Rightarrow> bool" where
  "is_array (JArr xs) = True"
| "is_array _ = False"

definition new_order :: "env \<Rightarrow> jsval \<Rightarrow> jsval \<Rightarrow> jsval \<Rightarrow> jsval \<Rightarrow> item" where
  "new_order e userId items shippingAddress tot =
     [(''orderId'', JStr (uuidv4 e)),
      (''userId'', userId),
      (''items'', items),
      (''shippingAddress'', shippingAddress),
      (''total'', JNum (parseFloat tot)),
      (''status'', JStr ''pending''),
      (''createdAt'', JStr (clock e 0)),
      (''updatedAt'', JStr (clock e 1))]"

definition handleCreateOrder :: "env \<Rightarrow> db \<Rightarrow> event \<Rightarrow> outcome \<times> db" where
  "handleCreateOrder e st ev =
     (let decoded = verifyToken e ev in
      if \<not> truthy decoded then (unauthorized, st)
      else
        (let userId = js_get decoded ''userId'' in
         case parse_body (ev_body ev) of
           None \<Rightarrow> (Thrown, st)
         | Some b \<Rightarrow>
             (let items = js_get b ''items'';
                  shippingAddress = js_get b ''shippingAddress'';
                  total = js_get b ''total''
              in if \<not> truthy items \<or> \<not> is_array items \<or> items = JArr [] then
                   (sendResponse 400 (err ''Items array is required and cannot be empty''), st)
                 else if \<not> truthy shippingAddress then
                   (sendResponse 400 (err ''Shipping address is required''), st)
                 else if total = JUndef \<or> js_le total 0 then
                   (sendResponse 400 (err ''Total must be a positive number''), st)
                 else
                   (let order = new_order e userId items shippingAddress total
                    in case send_put e st OrdersT order of
                         None \<Rightarrow> (sendResponse 500 (err ''Failed to create order''), st)
                       | Some st' \<Rightarrow>
                           (sendResponse 201
                              (JObj [(''message'', JStr ''Order created successfully''),
                                     (''order'', JObj order)]), st')))))"

section \<open>Catalogue items\<close>

definition itemsQuery :: "jsval \<Rightarrow> query_cmd" where
  "itemsQuery storeId = QueryCommand ItemsT ''StoreIdIndex'' (''storeId'', storeId) [] None"

definition itemsScan :: "jsval \<Rightarrow> scan_cmd" where
  "itemsScan storeId = ScanCommand ItemsT [(''storeId'', storeId)]"

definition default_item_image :: string where
  "default_item_image =
     ''https://images.unsplash.com/photo-1441986300917-64674bd600d8?auto=format&fit=crop&w=800&q=80''"

definition new_item :: "env \<Rightarrow> jsval \<Rightarrow> jsnum \<Rightarrow> item" where
  "new_item e b priceNum =
     [(''id'', JStr (uuidv4 e)),
      (''storeId'', js_get b ''storeId''),
      (''name'', js_get b ''name''),
      (''description'', js_get b ''description''),
      (''price'', JNum priceNum),
      (''category'', js_get b ''category''),
      (''image'', if truthy (js_get b ''image'') then js_get b ''image''
                  else JStr default_item_image),
      (''averageRating'', JNum (Fin 0)),
      (''reviews'', JArr []),
      (''createdAt'', JStr (clock e 0)),
      (''updatedAt'', JStr (clock e 1))]"

definition handleAddItem :: "env \<Rightarrow> db \<Rightarrow> event \<Rightarrow> outcome \<times> db" where
  "handleAddItem e st ev =
     (case parse_body (ev_body ev) of
        None \<Rightarrow> (Thrown, st)
      | Some b \<Rightarrow>
          (let name = js_get b ''name'';
               description = js_get b ''description'';
               price = js_get b ''price'';
               category = js_get b ''category'';
               image = js_get b ''image'';
               storeId = js_get b ''storeId''
           in if \<not> truthy name \<or> \<not> truthy description \<or> price = JUndef
                 \<or> \<not> truthy category \<or> \<not> truthy storeId then
                (sendResponse 400
                   (err ''Missing required fields: name, description, price, category, storeId''), st)
              else
                (let priceNum = parseFloat price in
                 if isNaN priceNum \<or> num_lt priceNum (Fin 0) then
                   (sendResponse 400 (err ''Price must be a valid positive number''), st)
                 else
                   (let item = new_item e b priceNum
                    in case send_put e st ItemsT item of
                         None \<Rightarrow> (sendResponse 500 (err ''Failed to add item''), st)
                       | Some st' \<Rightarrow>
                           (sendResponse 201
                              (JObj [(''message'', JStr ''Item added successfully''),
                                     (''item'', JObj item)]), st')))))"

definition handleGetItems :: "env \<Rightarrow> db \<Rightarrow> event \<Rightarrow> outcome \<times> db" where
  "handleGetItems e st ev =
     (case map_of (ev_query ev) ''storeId'' of
        None \<Rightarrow> (sendResponse 400 (err ''Missing required query parameter: storeId''), st)
      | Some sid \<Rightarrow>
          if sid = [] then
            (sendResponse 400 (err ''Missing required query parameter: storeId''), st)
          else
            (case send_query e st (itemsQuery (JStr sid)) of
               Some items \<Rightarrow> (sendResponse 200 (JObj [(''items'', JArr (map JObj items))]), st)
             | None \<Rightarrow>
                 (case send_scan e st (itemsScan (JStr sid)) of
                    Some items \<Rightarrow>
                      (sendResponse 200 (JObj [(''items'', JArr (map JObj items))]), st)
                  | None \<Rightarrow>
                      (sendResponse 500
                         (err (''Failed to get items: ''
                               @ fault_message e (OpScan (itemsScan (JStr sid))))), st))))"

section \<open>Reviews\<close>

definition reviewsQuery :: "jsval \<Rightarrow> query_cmd" where
  "reviewsQuery itemId = QueryCommand ReviewsT ''ItemIdIndex'' (''itemId'', itemId) [] None"

definition reviewsScan :: "jsval \<Rightarrow> scan_cmd" where
  "reviewsScan itemId = ScanCommand ReviewsT [(''itemId'', itemId)]"

definition existingQuery :: "jsval \<Rightarrow> jsval \<Rightarrow> query_cmd" where
  "existingQuery itemId userId =
     QueryCommand ReviewsT ''ItemIdIndex'' (''itemId'', itemId) [(''userId'', userId)] None"

definition existingScan :: "jsval \<Rightarrow> jsval \<Rightarrow> scan_cmd" where
  "existingScan itemId userId =
     ScanCommand ReviewsT [(''itemId'', itemId), (''userId'', userId)]"

text \<open>
  \<open>reviews.sort((a, b) => new Date(b.createdAt) - new Date(a.createdAt))\<close>: a stable
  sort; \<open>a\<close> goes behind \<open>b\<close> when the comparison is positive.
\<close>

definition newer :: "env \<Rightarrow> item \<Rightarrow> item \<Rightarrow> bool" where
  "newer e a b =
     num_lt (Fin 0)
       (num_sub (date_value e (js_get (JObj b) ''createdAt''))
                (date_value e (js_get (JObj a) ''createdAt'')))"

fun sort_insert :: "env \<Rightarrow> item \<Rightarrow> item list \<Rightarrow> item list" where
  "sort_insert e x [] = [x]"
| "sort_insert e x (y # ys) = (if newer e x y then y # sort_insert e x ys else x # y # ys)"

definition sort_reviews :: "env \<Rightarrow> item list \<Rightarrow> item list" where
  "sort_reviews e rs = foldr (sort_insert e) rs []"

text \<open>
  The average: the ratings that are not undefined, summed with \<open>+\<close> from 0 and divided
  by their number, or 0 when there is none; then \<open>Math.round(avg * 10) / 10\<close>.
\<close>

definition ratings_of :: "item list \<Rightarrow> jsval list" where
  "ratings_of reviews =
     filter (\<lambda>r. r \<noteq> JUndef) (map (\<lambda>review. js_get (JObj review) ''rating'') reviews)"

definition averageRating :: "env \<Rightarrow> item list \<Rightarrow> jsnum" where
  "averageRating e reviews =
     (let ratings = ratings_of reviews;
          avg = (if 0 < length ratings
                 then num_scale (1 / of_nat (length ratings))
                        (to_number (foldl (js_add (number_to_string e)) (JNum (Fin 0)) ratings))
                 else Fin 0)
      in num_scale (1 / 10) (math_round (num_scale 10 avg)))"

definition handleGetReviews :: "env \<Rightarrow> db \<Rightarrow> event \<Rightarrow> outcome \<times> db" where
  "handleGetReviews e st ev =
     (case map_of (ev_query ev) ''itemId'' of
        None \<Rightarrow> (sendResponse 400 (err ''itemId query parameter is required''), st)
      | Some iid \<Rightarrow>
          if iid = [] then
            (sendResponse 400 (err ''itemId query parameter is required''), st)
          else
            (case send_get e st ItemsT (''id'', JStr iid) of
               None \<Rightarrow> (sendResponse 500 (err ''Failed to get reviews''), st)
             | Some None \<Rightarrow> (sendResponse 404 (err ''Item not found''), st)
             | Some (Some it) \<Rightarrow>
                 (case (case send_query e st (reviewsQuery (JStr iid)) of
                          Some r \<Rightarrow> Some r
                        | None \<Rightarrow> send_scan e st (reviewsScan (JStr iid))) of
                    None \<Rightarrow> (sendResponse 500 (err ''Failed to get reviews''), st)
                  | Some found \<Rightarrow>
                      (let reviews = sort_reviews e found in
                       (sendResponse 200
                          (JObj [(''reviews'', JArr (map JObj reviews)),
                                 (''averageRating'', JNum (averageRating e reviews)),
                                 (''totalReviews'', JNum (Fin (of_nat (length reviews))))]),
                        st)))))"

text \<open>
  \<open>comment.trim()\<close>: a string has the method; on any other truthy value the call throws.
\<close>

fun the_string :: "jsval \<Rightarrow> string option" where
  "the_string (JStr s) = Some s"
| "the_string _ = None"

definition new_review :: "env \<Rightarrow> jsval \<Rightarrow> jsval \<Rightarrow> jsval \<Rightarrow> string \<Rightarrow> item" where
  "new_review e itemId userId rating c =
     [(''reviewId'', JStr (uuidv4 e)),
      (''itemId'', itemId),
      (''userId'', userId),
      (''rating'', JNum (parseInt rating)),
      (''comment'', JStr (trim c)),
      (''createdAt'', JStr (clock e 0)),
      (''updatedAt'', JStr (clock e 1))]"

definition handleCreateReview :: "env \<Rightarrow> db \<Rightarrow> event \<Rightarrow> outcome \<times> db" where
  "handleCreateReview e st ev =
     (let decoded = verifyToken e ev in
      if \<not> truthy decoded then (unauthorized, st)
      else
        (let userId = js_get decoded ''userId'' in
         case parse_body (ev_body ev) of
           None \<Rightarrow> (Thrown, st)
         | Some b \<Rightarrow>
             (let itemId = js_get b ''itemId'';
                  rating = js_get b ''rating'';
                  comment = js_get b ''comment''
              in if \<not> truthy itemId then (sendResponse 400 (err ''itemId is required''), st)
                 else if rating = JUndef \<or> js_lt rating 1 \<or> js_gt rating 5 then
                   (sendResponse 400 (err ''rating is required and must be between 1 and 5''), st)
                 else if \<not> truthy comment then (sendResponse 400 (err ''comment is required''), st)
                 else
                   (case the_string comment of
                      None \<Rightarrow> (Thrown, st)
                    | Some c \<Rightarrow>
                        if trim c = [] then (sendResponse 400 (err ''comment is required''), st)
                        else
                          (case send_get e st ItemsT (''id'', itemId) of
                             None \<Rightarrow> (sendResponse 500 (err ''Failed to create review''), st)
                           | Some None \<Rightarrow> (sendResponse 404 (err ''Item not found''), st)
                           | Some (Some it) \<Rightarrow>
                               (case (case send_query e st (existingQuery itemId userId) of
                                        Some r \<Rightarrow> Some r
                                      | None \<Rightarrow> send_scan e st (existingScan itemId userId)) of
                                  None \<Rightarrow>
                                    (sendResponse 500 (err ''Failed to create review''), st)
                                | Some existingReviews \<Rightarrow>
                                    if existingReviews \<noteq> [] then
                                      (sendResponse 409
                                         (err ''You have already reviewed this item''), st)
                                    else
                                      (let review = new_review e itemId userId rating c
                                       in case send_put e st ReviewsT review of
                                            None \<Rightarrow>
                                              (sendResponse 500
                                                 (err ''Failed to create review''), st)
                                          | Some st' \<Rightarrow>
                                              (sendResponse 201
                                                 (JObj [(''message'',
                                                         JStr ''Review created successfully''),
                                                        (''review'', JObj review)]),
                                               st'))))))))"

section \<open>Storefronts\<close>

definition ownerQuery :: "jsval \<Rightarrow> query_cmd" where
  "ownerQuery userId = QueryCommand StorefrontsT ''OwnerIndex'' (''owner'', userId) [] None"

definition ownerScan :: "jsval \<Rightarrow> scan_cmd" where
  "ownerScan userId = ScanCommand StorefrontsT [(''owner'', userId)]"

definition default_store_image :: string where
  "default_store_image =
     ''https://images.unsplash.com/photo-1441986300917-64674bd600d8?auto=format&fit=crop&w=1400&q=80''"

definition new_storefront :: "env \<Rightarrow> jsval \<Rightarrow> jsval \<Rightarrow> item" where
  "new_storefront e user b =
     [(''storeId'', JStr (uuidv4 e)),
      (''name'', js_get b ''name''),
      (''description'', js_get b ''description''),
      (''category'', js_get b ''category''),
      (''image'', if truthy (js_get b ''image'') then js_get b ''image''
                  else JStr default_store_image),
      (''owner'', js_get user ''userId''),
      (''ownerName'', js_get user ''email''),
      (''items'', JArr []),
      (''createdAt'', JStr (clock e 0)),
      (''updatedAt'', JStr (clock e 1))]"

definition handleCreateStorefront :: "env \<Rightarrow> db \<Rightarrow> event \<Rightarrow> outcome \<times> db" where
  "handleCreateStorefront e st ev =
     (let user = verifyToken e ev in
      if \<not> truthy user then (unauthorized, st)
      else if js_get user ''role'' \<noteq> JStr ''seller'' then
        (sendResponse 403 (err ''Forbidden: Only sellers can create storefronts''), st)
      else
        (case parse_body (ev_body ev) of
           None \<Rightarrow> (Thrown, st)
         | Some b \<Rightarrow>
             if \<not> truthy (js_get b ''name'') \<or> \<not> truthy (js_get b ''description'')
                \<or> \<not> truthy (js_get b ''category'') then
               (sendResponse 400
                  (err ''Missing required fields: name, description, category''), st)
             else
               (let storefront = new_storefront e user b in
                case send_put e st StorefrontsT storefront of
                  None \<Rightarrow> (sendResponse 500 (err ''Failed to create storefront''), st)
                | Some st1 \<Rightarrow>
                    (case send_update e st1 UsersT (''userId'', js_get user ''userId'')
                            (''hasStorefront'', JBool True) of
                       None \<Rightarrow> (sendResponse 500 (err ''Failed to create storefront''), st1)
                     | Some st2 \<Rightarrow>
                         (sendResponse 201
                            (JObj [(''message'', JStr ''Storefront created successfully''),
                                   (''storefront'', JObj storefront)]), st2)))))"

text \<open>\<open>path.split('/').pop()\<close>: what follows the last slash.\<close>

definition last_segment :: "string \<Rightarrow> string" where
  "last_segment p = rev (takeWhile (\<lambda>c. c \<noteq> CHR ''/'') (rev p))"

definition path_storeId :: "event \<Rightarrow> string option" where
  "path_storeId ev =
     (let fromPath = (case ev_path ev of None \<Rightarrow> None | Some p \<Rightarrow> Some (last_segment p))
      in case map_of (ev_pathParameters ev) ''storeId'' of
           Some s \<Rightarrow> (if s \<noteq> [] then Some s else fromPath)
         | None \<Rightarrow> fromPath)"

definition handleGetStorefront :: "env \<Rightarrow> db \<Rightarrow> event \<Rightarrow> outcome \<times> db" where
  "handleGetStorefront e st ev =
     (case path_storeId ev of
        None \<Rightarrow> (sendResponse 400 (err ''Missing storeId in path''), st)
      | Some sid \<Rightarrow>
          if sid = [] then (sendResponse 400 (err ''Missing storeId in path''), st)
          else
            (case send_get e st StorefrontsT (''storeId'', JStr sid) of
               None \<Rightarrow> (sendResponse 500 (err ''Failed to get storefront''), st)
             | Some None \<Rightarrow> (sendResponse 404 (err ''Storefront not found''), st)
             | Some (Some x) \<Rightarrow> (sendResponse 200 (JObj [(''storefront'', JObj x)]), st)))"

definition handleGetMyStorefronts :: "env \<Rightarrow> db \<Rightarrow> event \<Rightarrow> outcome \<times> db" where
  "handleGetMyStorefronts e st ev =
     (let user = verifyToken e ev in
      if \<not> truthy user then (unauthorized, st)
      else if js_get user ''role'' \<noteq> JStr ''seller'' then
        (sendResponse 403 (err ''Forbidden: Only sellers can view their storefronts''), st)
      else
        (let userId = js_get user ''userId'' in
         case send_query e st (ownerQuery userId) of
           Some found \<Rightarrow>
             (sendResponse 200 (JObj [(''storefronts'', JArr (map JObj found))]), st)
         | None \<Rightarrow>
             (case send_scan e st (ownerScan userId) of
                Some found \<Rightarrow>
                  (sendResponse 200 (JObj [(''storefronts'', JArr (map JObj found))]), st)
              | None \<Rightarrow>
                  (sendResponse 500
                     (err (''Failed to get storefronts: ''
                           @ fault_message e (OpScan (ownerScan userId)))), st))))"

definition handleListStorefronts :: "env \<Rightarrow> db \<Rightarrow> event \<Rightarrow> outcome \<times> db" where
  "handleListStorefronts e st ev =
     (case send_scan e st (ScanCommand StorefrontsT []) of
        None \<Rightarrow> (sendResponse 500 (err ''Failed to list storefronts''), st)
      | Some found \<Rightarrow>
          (sendResponse 200 (JObj [(''storefronts'', JArr (map JObj found))]), st))"

section \<open>Accounts\<close>

definition emailQuery :: "string \<Rightarrow> nat option \<Rightarrow> query_cmd" where
  "emailQuery email n = QueryCommand UsersT ''EmailIndex'' (''email'', JStr email) [] n"

text \<open>
  The duplicate check of registration: \<open>Some True\<close> when the index holds an account of
  the address. A query that throws, like \<open>email.toLowerCase()\<close> on a value that is no
  string, is caught and logged, and registration goes on: \<open>None\<close>. There is no scan here.
\<close>

definition email_taken :: "env \<Rightarrow> db \<Rightarrow> jsval \<Rightarrow> bool option" where
  "email_taken e st email =
     (case the_string email of
        None \<Rightarrow> None
      | Some em \<Rightarrow>
          (case send_query e st (emailQuery (toLowerCase em) (Some 1)) of
             None \<Rightarrow> None
           | Some found \<Rightarrow> Some (found \<noteq> [])))"

text \<open>The message \<open>Role must be either "buyer" or "seller"\<close>, its quotes as characters.\<close>

definition role_message :: string where
  "role_message =
     ''Role must be either '' @ [CHR 0x22] @ ''buyer'' @ [CHR 0x22] @ '' or ''
       @ [CHR 0x22] @ ''seller'' @ [CHR 0x22]"

definition token_payload :: "jsval \<Rightarrow> jsval \<Rightarrow> jsval \<Rightarrow> item" where
  "token_payload userId email role = [(''userId'', userId), (''email'', email), (''role'', role)]"

definition new_user :: "env \<Rightarrow> string \<Rightarrow> jsval \<Rightarrow> string \<Rightarrow> jsval \<Rightarrow> item" where
  "new_user e em name pw role =
     [(''userId'', JStr (uuidv4 e)),
      (''email'', JStr (toLowerCase em)),
      (''name'', name),
      (''password'', JStr (bcrypt_hash e pw)),
      (''role'', role),
      (''hasStorefront'', JBool False),
      (''createdAt'', JStr (clock e 0))]"

definition handleRegister :: "env \<Rightarrow> db \<Rightarrow> event \<Rightarrow> outcome \<times> db" where
  "handleRegister e st ev =
     (case parse_body (ev_body ev) of
        None \<Rightarrow> (Thrown, st)
      | Some b \<Rightarrow>
          (let name = js_get b ''name'';
               email = js_get b ''email'';
               password = js_get b ''password'';
               role = js_get b ''role''
           in if \<not> truthy name \<or> \<not> truthy email \<or> \<not> truthy password \<or> \<not> truthy role then
                (sendResponse 400
                   (err ''Missing required fields: name, email, password, role''), st)
              else if role \<noteq> JStr ''buyer'' \<and> role \<noteq> JStr ''seller'' then
                (sendResponse 400 (err role_message), st)
              else if js_lt (js_get password ''length'') 6 then
                (sendResponse 400 (err ''Password must be at least 6 characters''), st)
              else if email_taken e st email = Some True then
                (sendResponse 409 (err ''User with this email already exists''), st)
              else
                (case (the_string password, the_string email) of
                   (Some pw, Some em) \<Rightarrow>
                     (let user = new_user e em name pw role
                      in case send_put e st UsersT user of
                           None \<Rightarrow> (sendResponse 500 (err ''Failed to create user''), st)
                         | Some st' \<Rightarrow>
                             (case jwt_sign e (token_payload (JStr (uuidv4 e))
                                                 (JStr (toLowerCase em)) role) of
                                None \<Rightarrow> (sendResponse 500 (err ''Failed to create user''), st')
                              | Some token \<Rightarrow>
                                  (sendResponse 201
                                     (JObj [(''message'', JStr ''User created successfully''),
                                            (''user'', JObj (obj_without ''password'' user)),
                                            (''token'', JStr token)]), st')))
                 | _ \<Rightarrow> (Thrown, st))))"

definition handleLogin :: "env \<Rightarrow> db \<Rightarrow> event \<Rightarrow> outcome \<times> db" where
  "handleLogin e st ev =
     (case parse_body (ev_body ev) of
        None \<Rightarrow> (Thrown, st)
      | Some b \<Rightarrow>
          (let email = js_get b ''email'';
               password = js_get b ''password''
           in if \<not> truthy email \<or> \<not> truthy password then
                (sendResponse 400 (err ''Email and password are required''), st)
              else
                (case the_string email of
                   None \<Rightarrow> (sendResponse 500 (err ''Login failed''), st)
                 | Some em \<Rightarrow>
                     (case send_query e st (emailQuery (toLowerCase em) None) of
                        None \<Rightarrow> (sendResponse 500 (err ''Login failed''), st)
                      | Some [] \<Rightarrow> (sendResponse 401 (err ''Invalid email or password''), st)
                      | Some (user # others) \<Rightarrow>
                          (case (the_string password,
                                 the_string (js_get (JObj user) ''password'')) of
                             (Some pw, Some hashed) \<Rightarrow>
                               if \<not> bcrypt_compare e pw hashed then
                                 (sendResponse 401 (err ''Invalid email or password''), st)
                               else
                                 (case jwt_sign e
                                         (token_payload (js_get (JObj user) ''userId'')
                                            (js_get (JObj user) ''email'')
                                            (js_get (JObj user) ''role'')) of
                                    None \<Rightarrow> (sendResponse 500 (err ''Login failed''), st)
                                  | Some token \<Rightarrow>
                                      (sendResponse 200
                                         (JObj [(''message'', JStr ''Login successful''),
                                                (''user'', JObj (obj_without ''password'' user)),
                                                (''token'', JStr token)]), st))
                           | _ \<Rightarrow> (sendResponse 500 (err ''Login failed''), st))))))"

definition handleGetProfile :: "env \<Rightarrow> db \<Rightarrow> event \<Rightarrow> outcome \<times> db" where
  "handleGetProfile e st ev =
     (case auth_header ev of
        None \<Rightarrow> (sendResponse 401 (err ''Unauthorized: No token provided''), st)
      | Some s \<Rightarrow>
          if s = [] \<or> \<not> startsWith s ''Bearer '' then
            (sendResponse 401 (err ''Unauthorized: No token provided''), st)
          else
            (case jwt_verify e (drop 7 s) of
               None \<Rightarrow> (sendResponse 401 (err ''Invalid or expired token''), st)
             | Some decoded \<Rightarrow>
                 if decoded = JNull \<or> decoded = JUndef then
                   (sendResponse 500 (err ''Failed to get profile''), st)
                 else
                   (case send_get e st UsersT (''userId'', js_get decoded ''userId'') of
                      None \<Rightarrow> (sendResponse 500 (err ''Failed to get profile''), st)
                    | Some None \<Rightarrow> (sendResponse 404 (err ''User not found''), st)
                    | Some (Some x) \<Rightarrow>
                        (sendResponse 200
                           (JObj [(''user'', JObj (obj_without ''password'' x))]), st))))"

text \<open>The status code the caller sees; a thrown exception is answered with 500.\<close>

fun status :: "outcome \<Rightarrow> nat" where
  "status (Resp s b) = s"
| "status Thrown = 500"

section \<open>The operations of the interface\<close>

datatype operation =
    Register | Login | GetProfile
  | CreateStorefront | GetStorefront | GetMyStorefronts | ListStorefronts
  | AddItem | GetItems
  | GetReviews | CreateReview
  | GetOrders | CreateOrder

fun run :: "operation \<Rightarrow> env \<Rightarrow> db \<Rightarrow> event \<Rightarrow> outcome \<times> db" where
  "run Register = handleRegister"
| "run Login = handleLogin"
| "run GetProfile = handleGetProfile"
| "run CreateStorefront = handleCreateStorefront"
| "run GetStorefront = handleGetStorefront"
| "run GetMyStorefronts = handleGetMyStorefronts"
| "run ListStorefronts = handleListStorefronts"
| "run AddItem = handleAddItem"
| "run GetItems = handleGetItems"
| "run GetReviews = handleGetReviews"
| "run CreateReview = handleCreateReview"
| "run GetOrders = handleGetOrders"
| "run CreateOrder = handleCreateOrder"

text \<open>An error response: a status code outside 200..299.\<close>

definition is_error :: "outcome \<Rightarrow> bool" where
  "is_error out = (status out < 200 \<or> 300 \<le> status out)"

section \<open>The specification's notions\<close>




definition rating_numeric :: "item \<Rightarrow> bool" where
  "rating_numeric review =
     (case js_get (JObj review) ''rating'' of JUndef \<Rightarrow> True | JNum (Fin q) \<Rightarrow> True | _ \<Rightarrow> False)"

text \<open>The conditions under which a request reaches the checks a claim is about.\<close>

definition add_item_fields :: "jsval \<Rightarrow> bool" where
  "add_item_fields b =
     (truthy (js_get b ''name'') \<and> truthy (js_get b ''description'')
      \<and> truthy (js_get b ''category'') \<and> truthy (js_get b ''storeId''))"

definition review_request :: "env \<Rightarrow> event \<Rightarrow> jsval \<Rightarrow> bool" where
  "review_request e ev b =
     (truthy (verifyToken e ev) \<and> parse_body (ev_body ev) = Some b
      \<and> truthy (js_get b ''itemId''))"

definition rating_in_range :: "jsval \<Rightarrow> bool" where
  "rating_in_range r = (r \<noteq> JUndef \<and> \<not> js_lt r 1 \<and> \<not> js_gt r 5)"

definition review_exists :: "db \<Rightarrow> jsval \<Rightarrow> jsval \<Rightarrow> bool" where
  "review_exists st itemId userId =
     list_ex (\<lambda>r. holds (''itemId'', itemId) r \<and> holds (''userId'', userId) r) (st ReviewsT)"

definition valid_review :: "jsval \<Rightarrow> bool" where
  "valid_review b =
     (rating_in_range (js_get b ''rating'')
      \<and> (case js_get b ''comment'' of JStr c \<Rightarrow> trim c \<noteq> [] | _ \<Rightarrow> False))"

definition comment_of :: "jsval \<Rightarrow> string" where
  "comment_of b = (case js_get b ''comment'' of JStr c \<Rightarrow> c | _ \<Rightarrow> [])"

text \<open>A list of documents that one request reads whole: within a page of the store.\<close>

definition fits :: "env \<Rightarrow> item list \<Rightarrow> bool" where
  "fits e xs = (sum_list (map (doc_bytes e) xs) \<le> page_bytes)"

text \<open>
  The lookup of an account's earlier reviews of an item reads whole what it looks
  through: the reviews of the item when the index query answers, the reviews table
  when the scan has to.
\<close>

definition guard_reads_all :: "env \<Rightarrow> db \<Rightarrow> jsval \<Rightarrow> jsval \<Rightarrow> bool" where
  "guard_reads_all e st itemId userId =
     (if send_query e st (existingQuery itemId userId) \<noteq> None
      then fits e (filter (holds (''itemId'', itemId)) (st ReviewsT))
      else fits e (st ReviewsT))"

text \<open>
  A query and a scan of the same predicate: the same table, and as the scan's filter
  the query's key condition followed by its extra filter; the query is not cut by a
  \<open>Limit\<close>.
\<close>

definition same_predicate :: "query_cmd \<Rightarrow> scan_cmd \<Rightarrow> bool" where
  "same_predicate q s =
     (ScanTableName s = TableName q
      \<and> ScanFilterExpression s = KeyConditionExpression q # FilterExpression q
      \<and> Limit q = None)"

text \<open>
  The two paths of a lookup are of the same predicate, and return the same documents
  when the table is within a page.
\<close>

definition agree_within_page :: "env \<Rightarrow> db \<Rightarrow> query_cmd \<Rightarrow> scan_cmd \<Rightarrow> bool" where
  "agree_within_page e st q s =
     (same_predicate q s
      \<and> (fits e (st (TableName q)) \<longrightarrow>
           run_query (doc_bytes e) st q = run_scan (doc_bytes e) st s))"

text \<open>
  What each handler with a lookup does with the documents found, whichever path found
  them: the code after the lookup.
\<close>

definition orders_answer :: "env \<Rightarrow> db \<Rightarrow> item list \<Rightarrow> outcome \<times> db" where
  "orders_answer e st orders =
     (case those (map (enrich_order e st) orders) of
        None \<Rightarrow> (Resp 500 (err ''Failed to get orders''), st)
      | Some enriched \<Rightarrow> (Resp 200 (JObj [(''orders'', JArr enriched)]), st))"

definition items_answer :: "db \<Rightarrow> item list \<Rightarrow> outcome \<times> db" where
  "items_answer st items = (Resp 200 (JObj [(''items'', JArr (map JObj items))]), st)"

definition reviews_answer :: "env \<Rightarrow> db \<Rightarrow> item list \<Rightarrow> outcome \<times> db" where
  "reviews_answer e st found =
     (Resp 200
        (JObj [(''reviews'', JArr (map JObj (sort_reviews e found))),
               (''averageRating'', JNum (averageRating e (sort_reviews e found))),
               (''totalReviews'', JNum (Fin (of_nat (length (sort_reviews e found)))))]), st)"

definition review_answer ::
  "env \<Rightarrow> db \<Rightarrow> jsval \<Rightarrow> jsval \<Rightarrow> jsval \<Rightarrow> string \<Rightarrow> item list \<Rightarrow> outcome \<times> db" where
  "review_answer e st itemId userId rating c existing =
     (if existing \<noteq> [] then (Resp 409 (err ''You have already reviewed this item''), st)
      else (case send_put e st ReviewsT (new_review e itemId userId rating c) of
              None \<Rightarrow> (Resp 500 (err ''Failed to create review''), st)
            | Some st' \<Rightarrow>
                (Resp 201
                   (JObj [(''message'', JStr ''Review created successfully''),
                          (''review'', JObj (new_review e itemId userId rating c))]), st')))"

definition storefronts_answer :: "db \<Rightarrow> item list \<Rightarrow> outcome \<times> db" where
  "storefronts_answer st found =
     (Resp 200 (JObj [(''storefronts'', JArr (map JObj found))]), st)"

text \<open>
  A handler falls back from the query to the scan: the two are of the same predicate;
  when the query answers, the handler answers from its documents; when the query
  throws, the handler answers in the same way from the documents of the scan; only
  when both throw is the answer the 500 of a failed lookup, the store as it was.
\<close>

definition falls_back ::
  "env \<Rightarrow> db \<Rightarrow> query_cmd \<Rightarrow> scan_cmd \<Rightarrow> outcome \<times> db \<Rightarrow> (item list \<Rightarrow> outcome \<times> db) \<Rightarrow> bool"
  where
  "falls_back e st q s out answer =
     (same_predicate q s
      \<and> (case send_query e st q of
            Some found \<Rightarrow> out = answer found
          | None \<Rightarrow>
              (case send_scan e st s of
                 Some found \<Rightarrow> out = answer found
               | None \<Rightarrow> status (fst out) = 500 \<and> snd out = st)))"

definition seller_request :: "env \<Rightarrow> event \<Rightarrow> bool" where
  "seller_request e ev =
     (truthy (verifyToken e ev) \<and> js_get (verifyToken e ev) ''role'' = JStr ''seller'')"

text \<open>No stored account has the address, lower-cased.\<close>

definition email_fresh :: "db \<Rightarrow> string \<Rightarrow> bool" where
  "email_fresh st email =
     (filter (holds (''email'', JStr (toLowerCase email))) (st UsersT) = [])"

text \<open>
  A token signed in one invocation for a payload verifies in another to a payload of
  the same account id and role.
\<close>

definition token_roundtrip :: "env \<Rightarrow> env \<Rightarrow> item \<Rightarrow> bool" where
  "token_roundtrip e e' p =
     (case jwt_sign e p of
        None \<Rightarrow> False
      | Some t \<Rightarrow>
          (case jwt_verify e' t of
             Some d \<Rightarrow> js_get d ''userId'' = js_get (JObj p) ''userId''
                       \<and> js_get d ''role'' = js_get (JObj p) ''role''
           | None \<Rightarrow> False))"

definition register_fields_ok :: "jsval \<Rightarrow> bool" where
  "register_fields_ok r =
     (truthy (js_get r ''name'') \<and> truthy (js_get r ''email'') \<and> truthy (js_get r ''password'')
      \<and> (js_get r ''role'' = JStr ''buyer'' \<or> js_get r ''role'' = JStr ''seller'')
      \<and> \<not> js_lt (js_get (js_get r ''password'') ''length'') 6)"

section \<open>Example data\<close>

definition seller_payload :: jsval where
  "seller_payload =
     JObj [(''userId'', JStr ''u-1''), (''email'', JStr ''alice@example.com''),
           (''role'', JStr ''seller'')]"

definition buyer_payload :: jsval where
  "buyer_payload =
     JObj [(''userId'', JStr ''u-2''), (''email'', JStr ''bob@example.com''),
           (''role'', JStr ''buyer'')]"

definition env_ok :: env where
  "env_ok =
     \<lparr> faults = (\<lambda>op. False),
       fault_message = (\<lambda>op. ''unavailable''),
       doc_size = (\<lambda>it. 1000),
       uuidv4 = ''id-1'',
       clock = (\<lambda>n. ''2024-05-01T10:00:00.000Z''),
       bcrypt_hash = (\<lambda>p. ''hash:'' @ p),
       bcrypt_compare = (\<lambda>p h. h = ''hash:'' @ p),
       jwt_sign = (\<lambda>p. if map_of p ''role'' = Some (JStr ''seller'') then Some ''tok-seller''
                         else Some ''tok-buyer''),
       jwt_verify = (\<lambda>t. if t = ''tok-seller'' then Some seller_payload
                          else if t = ''tok-buyer'' then Some buyer_payload else None),
       date_value = (\<lambda>v. NaN),
       number_to_string = (\<lambda>n. ''0'') \<rparr>"

definition request :: "string \<Rightarrow> jsval \<Rightarrow> event" where
  "request token b =
     \<lparr> ev_headers = [(''Authorization'', ''Bearer '' @ token)],
       ev_body = Json b,
       ev_query = [],
       ev_pathParameters = [],
       ev_path = None \<rparr>"

definition query_request :: "string \<Rightarrow> string \<Rightarrow> event" where
  "query_request k v =
     \<lparr> ev_headers = [], ev_body = NoBody, ev_query = [(k, v)], ev_pathParameters = [],
       ev_path = None \<rparr>"

definition mug :: item where
  "mug = [(''id'', JStr ''item-1''), (''storeId'', JStr ''store-1''), (''name'', JStr ''Mug'')]"

definition review_a :: item where
  "review_a = [(''reviewId'', JStr ''r-1''), (''itemId'', JStr ''item-1''),
               (''userId'', JStr ''u-2''), (''rating'', JNum (Fin 4)),
               (''comment'', JStr ''good'')]"

definition review_b :: item where
  "review_b = [(''reviewId'', JStr ''r-2''), (''itemId'', JStr ''item-1''),
               (''userId'', JStr ''u-3''), (''rating'', JNum (Fin 5)),
               (''comment'', JStr ''great'')]"

definition shop_db :: db where
  "shop_db t = (if t = ItemsT then [mug] else if t = ReviewsT then [review_a, review_b] else [])"

definition add_body :: "jsval \<Rightarrow> jsval" where
  "add_body price =
     JObj [(''name'', JStr ''Mug''), (''description'', JStr ''A mug''), (''price'', price),
           (''category'', JStr ''kitchen''), (''storeId'', JStr ''store-1'')]"

definition review_body :: "jsval \<Rightarrow> string \<Rightarrow> jsval" where
  "review_body rating comment =
     JObj [(''itemId'', JStr ''item-1''), (''rating'', rating), (''comment'', JStr comment)]"

definition env_noindex :: env where
  "env_noindex = env_ok\<lparr>faults := (\<lambda>op. case op of OpQuery c \<Rightarrow> True | _ \<Rightarrow> False)\<rparr>"

definition alice :: item where
  "alice = [(''userId'', JStr ''u-1''), (''email'', JStr ''alice@example.com''),
            (''name'', JStr ''Alice''), (''password'', JStr ''hash:secret1''),
            (''role'', JStr ''seller''), (''hasStorefront'', JBool False),
            (''createdAt'', JStr ''2024-04-01T09:00:00.000Z'')]"

definition users_db :: db where
  "users_db t = (if t = UsersT then [alice] else [])"

definition login_body :: "string \<Rightarrow> string \<Rightarrow> jsval" where
  "login_body email password = JObj [(''email'', JStr email), (''password'', JStr password)]"

definition register_body :: "string \<Rightarrow> string \<Rightarrow> string \<Rightarrow> jsval" where
  "register_body name email password =
     JObj [(''name'', JStr name), (''email'', JStr email), (''password'', JStr password),
           (''role'', JStr ''seller'')]"

definition env_down :: env where
  "env_down = env_ok\<lparr>faults := (\<lambda>op. True)\<rparr>"

definition empty_db :: db where
  "empty_db t = []"

definition env_u1 :: env where
  "env_u1 = env_ok\<lparr>uuidv4 := ''u-1''\<rparr>"

definition alice_new :: item where
  "alice_new = new_user env_u1 ''Alice@Example.com'' (JStr ''Alice'') ''secret1'' (JStr ''seller'')"

definition env_u9_noindex :: env where
  "env_u9_noindex = env_noindex\<lparr>uuidv4 := ''u-9''\<rparr>"

definition mallory :: item where
  "mallory = new_user env_u9_noindex ''ALICE@example.com'' (JStr ''Mallory'') ''password9''
               (JStr ''seller'')"

definition store_body :: jsval where
  "store_body =
     JObj [(''name'', JStr ''Alice Mugs''), (''description'', JStr ''Mugs''),
           (''category'', JStr ''kitchen'')]"

definition alice_store :: item where
  "alice_store = new_storefront env_ok seller_payload store_body"

definition env_noupdate :: env where
  "env_noupdate =
     env_ok\<lparr>faults := (\<lambda>op. case op of OpUpdate t k u \<Rightarrow> True | _ \<Rightarrow> False)\<rparr>"

definition shop_after :: db where
  "shop_after =
     users_db(StorefrontsT := [alice_store],
              UsersT := [obj_set alice ''hasStorefront'' (JBool True)])"

definition review_c :: item where
  "review_c = new_review env_ok (JStr ''item-1'') (JStr ''u-1'') (JNum (Fin (3 / 2))) '' nice ''"

definition string_rating_body :: "string \<Rightarrow> jsval" where
  "string_rating_body s =
     JObj [(''itemId'', JStr ''item-1''), (''rating'', JStr s), (''comment'', JStr ''nice'')]"


text \<open>
  A store whose documents are of 400 000 bytes: a page holds two of them, and the
  fourth document of a table is beyond the first megabyte however the page is cut.
\<close>

definition env_big :: env where
  "env_big = env_ok\<lparr>doc_size := (\<lambda>it. 400000)\<rparr>"

definition env_big_noindex :: env where
  "env_big_noindex =
     env_big\<lparr>faults := (\<lambda>op. case op of OpQuery c \<Rightarrow> True | _ \<Rightarrow> False)\<rparr>"

definition review_x :: item where
  "review_x = [(''reviewId'', JStr ''r-8''), (''itemId'', JStr ''item-2''),
               (''userId'', JStr ''u-3''), (''rating'', JNum (Fin 2)),
               (''comment'', JStr ''poor'')]"

definition review_y :: item where
  "review_y = [(''reviewId'', JStr ''r-9''), (''itemId'', JStr ''item-2''),
               (''userId'', JStr ''u-4''), (''rating'', JNum (Fin 3)),
               (''comment'', JStr ''fair'')]"

definition review_z :: item where
  "review_z = [(''reviewId'', JStr ''r-7''), (''itemId'', JStr ''item-2''),
               (''userId'', JStr ''u-5''), (''rating'', JNum (Fin 4)),
               (''comment'', JStr ''good'')]"

definition big_reviews_db :: db where
  "big_reviews_db t =
     (if t = ItemsT then [mug]
      else if t = ReviewsT then [review_x, review_y, review_z, review_a] else [])"

definition review_d :: item where
  "review_d = [(''reviewId'', JStr ''r-3''), (''itemId'', JStr ''item-1''),
               (''userId'', JStr ''u-4''), (''rating'', JNum (Fin 3)),
               (''comment'', JStr ''fine'')]"

definition review_e :: item where
  "review_e = [(''reviewId'', JStr ''r-4''), (''itemId'', JStr ''item-1''),
               (''userId'', JStr ''u-5''), (''rating'', JNum (Fin 2)),
               (''comment'', JStr ''poor'')]"

definition many_reviews_db :: db where
  "many_reviews_db t =
     (if t = ItemsT then [mug]
      else if t = ReviewsT then [review_b, review_d, review_e, review_a] else [])"

definition env_nosecret :: env where
  "env_nosecret = env_u1\<lparr>jwt_sign := (\<lambda>p. None)\<rparr>"

definition env_u1_noindex :: env where
  "env_u1_noindex = env_noindex\<lparr>uuidv4 := ''u-1''\<rparr>"
section \<open>Properties\<close>

subsection \<open>Pages\<close>

lemmas page_simps = doc_bytes_def page_bytes_def max_item_bytes_def

lemma first_page_whole: "sum_list (map sz xs) \<le> b \<Longrightarrow> first_page sz b xs = xs"
  by (induction xs arbitrary: b) simp_all

lemma sum_list_filter_le: "sum_list (map sz (filter P xs)) \<le> sum_list (map (sz :: 'a \<Rightarrow> nat) xs)"
  by (induction xs) simp_all

lemma fits_page: "fits e xs \<Longrightarrow> first_page (doc_bytes e) page_bytes xs = xs"
  by (simp add: fits_def first_page_whole)

lemma fits_filter: "fits e xs \<Longrightarrow> fits e (filter P xs)"
  unfolding fits_def using sum_list_filter_le [of "doc_bytes e" P xs] by simp

lemma first_page_subset: "set (first_page sz b xs) \<subseteq> set xs"
  by (induction xs arbitrary: b) auto

lemma doc_bytes_le: "doc_bytes e x \<le> page_bytes"
  by (simp add: page_simps)

lemma first_page_head:
  "first_page (doc_bytes e) page_bytes (x # xs)
     = x # first_page (doc_bytes e) (page_bytes - doc_bytes e x) xs"
  by (simp add: doc_bytes_le)

subsection \<open>Query and scan (C2)\<close>

lemma query_scan_fits:
  assumes "same_predicate q s" "fits e (st (TableName q))"
  shows "run_query (doc_bytes e) st q = run_scan (doc_bytes e) st s"
proof -
  have "holds_all (KeyConditionExpression q # FilterExpression q)
          = (\<lambda>it. holds (KeyConditionExpression q) it \<and> holds_all (FilterExpression q) it)"
    by (simp add: holds_all_def fun_eq_iff)
  then show ?thesis
    using assms fits_page [OF assms(2)] fits_page [OF fits_filter [OF assms(2)]]
    by (simp add: run_query_def run_scan_def same_predicate_def)
qed

lemma same_predicate_sites:
  "same_predicate (ordersQuery v) (ordersScan v)"
  "same_predicate (itemsQuery v) (itemsScan v)"
  "same_predicate (reviewsQuery v) (reviewsScan v)"
  "same_predicate (existingQuery v w) (existingScan v w)"
  "same_predicate (ownerQuery v) (ownerScan v)"
  by (simp_all add: same_predicate_def ordersQuery_def ordersScan_def itemsQuery_def
      itemsScan_def reviewsQuery_def reviewsScan_def existingQuery_def existingScan_def
      ownerQuery_def ownerScan_def)

lemma agree_sites: "same_predicate q s \<Longrightarrow> agree_within_page e st q s"
  by (simp add: agree_within_page_def query_scan_fits)

text \<open>
  Claim C2 fails on a table beyond one page. Four reviews of 400 000 bytes each, the
  last the only one of the item: the index query reads the item's reviews and returns
  it; the scan reads the first documents of the table, stops at 1 MB, and returns
  nothing. Get-reviews answers one review by the index and none by the scan.
\<close>

theorem C2_scan_page_counterexample:
  "run_query (doc_bytes env_big) big_reviews_db (reviewsQuery (JStr ''item-1'')) = [review_a]
   \<and> run_scan (doc_bytes env_big) big_reviews_db (reviewsScan (JStr ''item-1'')) = []
   \<and> js_get (case fst (handleGetReviews env_big big_reviews_db
                          (query_request ''itemId'' ''item-1'')) of Resp c b \<Rightarrow> b | Thrown \<Rightarrow> JNull)
         ''totalReviews'' = JNum (Fin 1)
   \<and> js_get (case fst (handleGetReviews env_big_noindex big_reviews_db
                          (query_request ''itemId'' ''item-1'')) of Resp c b \<Rightarrow> b | Thrown \<Rightarrow> JNull)
         ''totalReviews'' = JNum (Fin 0)"
  by (simp add: handleGetReviews_def query_request_def send_get_def send_query_def
      send_scan_def run_query_def run_scan_def reviewsQuery_def reviewsScan_def page_simps
      env_big_noindex_def env_big_def env_ok_def big_reviews_db_def holds_def holds_all_def
      mug_def review_a_def review_x_def review_y_def review_z_def sort_reviews_def
      sendResponse_def)

text \<open>
  Claim C2, amended to tables within one page. At each call site that has both paths
  (orders by account, items by storefront, reviews by item, the reviews of one account
  for an item, storefronts by owner), the scan is on the query's table and filters by
  the query's key condition (the same attribute, compared for equality with the same
  value) and the query's extra filter; and when one request reads the table whole, the
  two return the same documents.
\<close>

theorem C2_lookup_paths_agree:
  "agree_within_page e st (ordersQuery v) (ordersScan v)
   \<and> agree_within_page e st (itemsQuery v) (itemsScan v)
   \<and> agree_within_page e st (reviewsQuery v) (reviewsScan v)
   \<and> agree_within_page e st (existingQuery v w) (existingScan v w)
   \<and> agree_within_page e st (ownerQuery v) (ownerScan v)"
  by (simp add: agree_sites same_predicate_sites)

text \<open>The two reviews of the mug, in a table of two documents of 1000 bytes.\<close>

theorem C2_lookup_paths_agree_witness:
  "fits env_ok (shop_db ReviewsT)
   \<and> run_query (doc_bytes env_ok) shop_db (reviewsQuery (JStr ''item-1''))
       = [review_a, review_b]
   \<and> run_scan (doc_bytes env_ok) shop_db (reviewsScan (JStr ''item-1''))
       = [review_a, review_b]"
proof -
  have f: "fits env_ok (shop_db ReviewsT)"
    by (simp add: fits_def page_simps env_ok_def shop_db_def)
  have t: "TableName (reviewsQuery (JStr ''item-1'')) = ReviewsT"
    by (simp add: reviewsQuery_def)
  have s: "run_scan (doc_bytes env_ok) shop_db (reviewsScan (JStr ''item-1''))
             = [review_a, review_b]"
    by (simp add: run_scan_def reviewsScan_def page_simps env_ok_def shop_db_def holds_def
        holds_all_def review_a_def review_b_def)
  from C2_lookup_paths_agree [of env_ok shop_db "JStr ''item-1''"] f t s
  show ?thesis by (simp add: agree_within_page_def)
qed

subsection \<open>The average rating (C3)\<close>






lemma map_JObj_inj: "map JObj xs = map JObj ys \<Longrightarrow> xs = ys"
  by (simp add: inj_on_def inj_map_eq_map [unfolded inj_on_def])




subsection \<open>Boundary validation (C7)\<close>

lemma trim_blank: "list_all is_ws c \<Longrightarrow> trim c = []"
proof -
  assume "list_all is_ws c"
  then have "dropWhile is_ws c = []" by (induction c) simp_all
  then show ?thesis by (simp only: trim_def rev.simps dropWhile.simps)
qed

lemma addItem_price_zero:
  assumes "parse_body (ev_body ev) = Some b" "add_item_fields b" "js_get b ''price'' = JNum (Fin 0)"
  shows "handleAddItem e st ev =
           (case send_put e st ItemsT (new_item e b (Fin 0)) of
              None \<Rightarrow> (Resp 500 (err ''Failed to add item''), st)
            | Some st' \<Rightarrow>
                (Resp 201 (JObj [(''message'', JStr ''Item added successfully''),
                                 (''item'', JObj (new_item e b (Fin 0)))]), st'))"
  using assms
  by (simp add: handleAddItem_def add_item_fields_def isNaN_def sendResponse_def Let_def
      split: option.splits)

lemma addItem_price_negative:
  assumes "parse_body (ev_body ev) = Some b" "add_item_fields b"
    "js_get b ''price'' = JNum (Fin (- 1 / 100))"
  shows "handleAddItem e st ev = (Resp 400 (err ''Price must be a valid positive number''), st)"
  using assms
  by (simp add: handleAddItem_def add_item_fields_def isNaN_def sendResponse_def Let_def
      split: option.splits)

lemma createReview_rating_out:
  assumes "review_request e ev b" "\<not> rating_in_range (js_get b ''rating'')"
  shows "handleCreateReview e st ev =
           (Resp 400 (err ''rating is required and must be between 1 and 5''), st)"
  using assms
  by (auto simp add: handleCreateReview_def review_request_def rating_in_range_def
      sendResponse_def Let_def)

lemma createReview_blank_comment:
  assumes "review_request e ev b" "rating_in_range (js_get b ''rating'')"
    "js_get b ''comment'' = JStr c" "list_all is_ws c"
  shows "handleCreateReview e st ev = (Resp 400 (err ''comment is required''), st)"
  using assms
  by (auto simp add: handleCreateReview_def review_request_def rating_in_range_def
      sendResponse_def Let_def trim_blank)

text \<open>
  Claim C7. Add-item, given its required fields, takes price 0 to the insert (201 once
  the store accepts the write) and answers 400 to price -0.01; create-review, for an
  authenticated request that names an item, answers 400 to rating 0 and to rating 6,
  and, the rating being in range, to a comment of white space only.
\<close>

theorem C7_boundary_validation:
  "(parse_body (ev_body ev) = Some b \<and> add_item_fields b \<longrightarrow>
      (js_get b ''price'' = JNum (Fin 0) \<longrightarrow>
         handleAddItem e st ev =
           (case send_put e st ItemsT (new_item e b (Fin 0)) of
              None \<Rightarrow> (Resp 500 (err ''Failed to add item''), st)
            | Some st' \<Rightarrow>
                (Resp 201 (JObj [(''message'', JStr ''Item added successfully''),
                                 (''item'', JObj (new_item e b (Fin 0)))]), st')))
      \<and> (js_get b ''price'' = JNum (Fin (- 1 / 100)) \<longrightarrow>
           handleAddItem e st ev =
             (Resp 400 (err ''Price must be a valid positive number''), st)))
   \<and> (review_request e ev' b' \<longrightarrow>
        (js_get b' ''rating'' = JNum (Fin 0) \<or> js_get b' ''rating'' = JNum (Fin 6) \<longrightarrow>
           handleCreateReview e st ev' =
             (Resp 400 (err ''rating is required and must be between 1 and 5''), st))
        \<and> (rating_in_range (js_get b' ''rating'') \<and> js_get b' ''comment'' = JStr c
            \<and> list_all is_ws c \<longrightarrow>
             handleCreateReview e st ev' = (Resp 400 (err ''comment is required''), st)))"
proof -
  have r0: "\<not> rating_in_range (JNum (Fin 0))" and r6: "\<not> rating_in_range (JNum (Fin 6))"
    by (simp_all add: rating_in_range_def js_lt_def js_gt_def)
  show ?thesis
    using addItem_price_zero [of ev b e st] addItem_price_negative [of ev b e st]
      createReview_rating_out [of e ev' b' st] createReview_blank_comment [of e ev' b' c st]
      r0 r6
    by auto
qed

text \<open>The five boundary requests of the claim, run on a small shop.\<close>

theorem C7_boundary_validation_witness:
  "status (fst (handleAddItem env_ok shop_db (request ''tok-seller'' (add_body (JNum (Fin 0)))))) = 201
   \<and> handleAddItem env_ok shop_db (request ''tok-seller'' (add_body (JNum (Fin (- 1 / 100)))))
       = (Resp 400 (err ''Price must be a valid positive number''), shop_db)
   \<and> handleCreateReview env_ok shop_db (request ''tok-buyer'' (review_body (JNum (Fin 0)) ''fine''))
       = (Resp 400 (err ''rating is required and must be between 1 and 5''), shop_db)
   \<and> handleCreateReview env_ok shop_db (request ''tok-buyer'' (review_body (JNum (Fin 6)) ''fine''))
       = (Resp 400 (err ''rating is required and must be between 1 and 5''), shop_db)
   \<and> handleCreateReview env_ok shop_db (request ''tok-buyer'' (review_body (JNum (Fin 3)) ''   ''))
       = (Resp 400 (err ''comment is required''), shop_db)"
proof -
  have fields: "\<And>p. parse_body (ev_body (request ''tok-seller'' (add_body p))) = Some (add_body p)
                 \<and> add_item_fields (add_body p)"
    by (simp add: request_def add_body_def add_item_fields_def)
  have rr: "\<And>r c. review_request env_ok (request ''tok-buyer'' (review_body r c)) (review_body r c)"
    by (simp add: review_request_def request_def review_body_def verifyToken_def auth_header_def
        startsWith_def env_ok_def buyer_payload_def)
  have put: "send_put env_ok shop_db ItemsT (new_item env_ok (add_body (JNum (Fin 0))) (Fin 0)) \<noteq> None"
    by (simp add: send_put_def env_ok_def new_item_def add_body_def)
  have ws: "list_all is_ws ''   ''" by (simp add: is_ws_def)
  have r3: "rating_in_range (JNum (Fin 3))"
    by (simp add: rating_in_range_def js_lt_def js_gt_def)
  note p0 = C7_boundary_validation [of "request ''tok-seller'' (add_body (JNum (Fin 0)))"
      "add_body (JNum (Fin 0))" env_ok shop_db
      "request ''tok-buyer'' (review_body (JNum (Fin 0)) ''fine'')"
      "review_body (JNum (Fin 0)) ''fine''" "''fine''"]
  note p1 = C7_boundary_validation [of "request ''tok-seller'' (add_body (JNum (Fin (- 1 / 100))))"
      "add_body (JNum (Fin (- 1 / 100)))" env_ok shop_db
      "request ''tok-buyer'' (review_body (JNum (Fin 6)) ''fine'')"
      "review_body (JNum (Fin 6)) ''fine''" "''fine''"]
  note p2 = C7_boundary_validation [of "request ''tok-seller'' (add_body (JNum (Fin 0)))"
      "add_body (JNum (Fin 0))" env_ok shop_db
      "request ''tok-buyer'' (review_body (JNum (Fin 3)) ''   '')"
      "review_body (JNum (Fin 3)) ''   ''" "''   ''"]
  have a0: "status (fst (handleAddItem env_ok shop_db
              (request ''tok-seller'' (add_body (JNum (Fin 0)))))) = 201"
    using p0 fields [of "JNum (Fin 0)"] put by (auto simp: add_body_def)
  have a1: "handleAddItem env_ok shop_db (request ''tok-seller'' (add_body (JNum (Fin (- 1 / 100)))))
       = (Resp 400 (err ''Price must be a valid positive number''), shop_db)"
    using p1 fields [of "JNum (Fin (- 1 / 100))"] by (simp add: add_body_def)
  have b0: "handleCreateReview env_ok shop_db (request ''tok-buyer'' (review_body (JNum (Fin 0)) ''fine''))
       = (Resp 400 (err ''rating is required and must be between 1 and 5''), shop_db)"
    using p0 rr [of "JNum (Fin 0)" "''fine''"] by (simp add: review_body_def)
  have b6: "handleCreateReview env_ok shop_db (request ''tok-buyer'' (review_body (JNum (Fin 6)) ''fine''))
       = (Resp 400 (err ''rating is required and must be between 1 and 5''), shop_db)"
    using p1 rr [of "JNum (Fin 6)" "''fine''"] by (simp add: review_body_def)
  have c: "handleCreateReview env_ok shop_db (request ''tok-buyer'' (review_body (JNum (Fin 3)) ''   ''))
       = (Resp 400 (err ''comment is required''), shop_db)"
    using p2 rr [of "JNum (Fin 3)" "''   ''"] ws r3 by (simp add: review_body_def)
  from a0 a1 b0 b6 c show ?thesis by simp
qed

subsection \<open>The duplicate-review guard (C4)\<close>

lemma existing_scan_nonempty:
  "fits e (st ReviewsT) \<Longrightarrow>
   (run_scan (doc_bytes e) st (existingScan i u) \<noteq> []) = review_exists st i u"
  by (simp add: existingScan_def run_scan_def fits_page holds_all_def [abs_def]
      review_exists_def filter_empty_conv list_ex_iff)

lemma existing_query_nonempty:
  "fits e (filter (holds (''itemId'', i)) (st ReviewsT)) \<Longrightarrow>
   (run_query (doc_bytes e) st (existingQuery i u) \<noteq> []) = review_exists st i u"
  by (simp add: existingQuery_def run_query_def fits_page holds_all_def [abs_def]
      review_exists_def filter_empty_conv list_ex_iff)

lemma fits_guard: "fits e (st ReviewsT) \<Longrightarrow> guard_reads_all e st i u"
  by (simp add: guard_reads_all_def fits_filter)

lemma trim_nonempty: "trim c \<noteq> [] \<Longrightarrow> c \<noteq> []"
  by (auto simp: trim_def)

lemma existing_lookup:
  assumes "guard_reads_all e st i u"
    and "send_query e st (existingQuery i u) \<noteq> None \<or> send_scan e st (existingScan i u) \<noteq> None"
  shows "\<exists>found. (case send_query e st (existingQuery i u) of
                     Some r \<Rightarrow> Some r
                   | None \<Rightarrow> send_scan e st (existingScan i u)) = Some found
                 \<and> (found \<noteq> []) = review_exists st i u"
proof (cases "send_query e st (existingQuery i u)")
  case None
  with assms have f: "fits e (st ReviewsT)" by (simp add: guard_reads_all_def)
  from None assms(2) existing_scan_nonempty [of e st i u] f show ?thesis
    by (auto simp: send_scan_def split: if_splits)
next
  case (Some r)
  with assms have f: "fits e (filter (holds (''itemId'', i)) (st ReviewsT))"
    by (simp add: guard_reads_all_def)
  from Some existing_query_nonempty [of e i st u] f show ?thesis
    by (auto simp: send_query_def split: if_splits)
qed

lemma createReview_lookup:
  assumes req: "review_request e ev b"
    and valid: "valid_review b"
    and item: "send_get e st ItemsT (''id'', js_get b ''itemId'') = Some (Some it)"
  shows "handleCreateReview e st ev =
     (case (case send_query e st (existingQuery (js_get b ''itemId'')
                                    (js_get (verifyToken e ev) ''userId'')) of
              Some r \<Rightarrow> Some r
            | None \<Rightarrow> send_scan e st (existingScan (js_get b ''itemId'')
                                          (js_get (verifyToken e ev) ''userId''))) of
        None \<Rightarrow> (Resp 500 (err ''Failed to create review''), st)
      | Some found \<Rightarrow>
          review_answer e st (js_get b ''itemId'') (js_get (verifyToken e ev) ''userId'')
            (js_get b ''rating'') (comment_of b) found)"
proof -
  from valid obtain c where c: "js_get b ''comment'' = JStr c" "trim c \<noteq> []"
    by (auto simp: valid_review_def split: jsval.splits)
  from c have cne: "c \<noteq> []" by (simp add: trim_nonempty)
  show ?thesis
    using req valid c cne item
    by (simp add: handleCreateReview_def review_request_def valid_review_def rating_in_range_def
        comment_of_def review_answer_def sendResponse_def Let_def
        split: option.splits cong: option.case_cong)
qed

lemma createReview_guard:
  assumes req: "review_request e ev b"
    and valid: "valid_review b"
    and item: "send_get e st ItemsT (''id'', js_get b ''itemId'') = Some (Some it)"
    and lookup: "send_query e st (existingQuery (js_get b ''itemId'') (js_get (verifyToken e ev) ''userId'')) \<noteq> None
                 \<or> send_scan e st (existingScan (js_get b ''itemId'') (js_get (verifyToken e ev) ''userId'')) \<noteq> None"
    and page: "guard_reads_all e st (js_get b ''itemId'') (js_get (verifyToken e ev) ''userId'')"
  shows "handleCreateReview e st ev =
     (if review_exists st (js_get b ''itemId'') (js_get (verifyToken e ev) ''userId'')
      then (Resp 409 (err ''You have already reviewed this item''), st)
      else (case send_put e st ReviewsT
                   (new_review e (js_get b ''itemId'') (js_get (verifyToken e ev) ''userId'')
                      (js_get b ''rating'') (comment_of b)) of
              None \<Rightarrow> (Resp 500 (err ''Failed to create review''), st)
            | Some st' \<Rightarrow>
                (Resp 201
                   (JObj [(''message'', JStr ''Review created successfully''),
                          (''review'',
                           JObj (new_review e (js_get b ''itemId'')
                                   (js_get (verifyToken e ev) ''userId'')
                                   (js_get b ''rating'') (comment_of b)))]), st')))"
proof -
  from existing_lookup [of e st "js_get b ''itemId''" "js_get (verifyToken e ev) ''userId''"]
    page lookup
  obtain found where
    f: "(case send_query e st (existingQuery (js_get b ''itemId'') (js_get (verifyToken e ev) ''userId'')) of
           Some r \<Rightarrow> Some r
         | None \<Rightarrow> send_scan e st (existingScan (js_get b ''itemId'') (js_get (verifyToken e ev) ''userId''))) = Some found"
    and ex: "(found \<noteq> []) = review_exists st (js_get b ''itemId'') (js_get (verifyToken e ev) ''userId'')"
    by blast
  show ?thesis
    unfolding createReview_lookup [OF req valid item] f
    using ex by (simp add: review_answer_def)
qed

lemma buyer_review_request:
  "verifyToken env_big (request ''tok-buyer'' b) = buyer_payload"
  "verifyToken env_big_noindex (request ''tok-buyer'' b) = buyer_payload"
  "verifyToken env_ok (request ''tok-buyer'' b) = buyer_payload"
  "verifyToken env_ok (request ''tok-seller'' b) = seller_payload"
  by (simp_all add: verifyToken_def auth_header_def request_def startsWith_def env_ok_def
      env_big_def env_big_noindex_def)

text \<open>
  Claim C4 fails on a table beyond one page. The item has four reviews of 400 000
  bytes each, the last by account \<open>u-2\<close>. The lookup reads the first of them, stops
  at 1 MB and filters what it read by account: it finds none, by the index and by the
  scan alike, and a second review of \<open>u-2\<close> for the item is stored with 201.
\<close>

theorem C4_review_beyond_page_counterexample:
  "review_exists many_reviews_db (JStr ''item-1'') (JStr ''u-2'')
   \<and> handleCreateReview env_big many_reviews_db
         (request ''tok-buyer'' (review_body (JNum (Fin 4)) ''nice''))
       = (Resp 201
            (JObj [(''message'', JStr ''Review created successfully''),
                   (''review'', JObj (new_review env_big (JStr ''item-1'') (JStr ''u-2'')
                                        (JNum (Fin 4)) ''nice''))]),
          many_reviews_db(ReviewsT := [review_b, review_d, review_e, review_a,
            new_review env_big (JStr ''item-1'') (JStr ''u-2'') (JNum (Fin 4)) ''nice'']))
   \<and> status (fst (handleCreateReview env_big_noindex many_reviews_db
                (request ''tok-buyer'' (review_body (JNum (Fin 4)) ''nice'')))) = 201"
proof -
  let ?b = "review_body (JNum (Fin 4)) ''nice''"
  have ex: "review_exists many_reviews_db (JStr ''item-1'') (JStr ''u-2'')"
    by (simp add: review_exists_def many_reviews_db_def holds_def review_a_def review_b_def
        review_d_def review_e_def)
  have ids: "js_get ?b ''itemId'' = JStr ''item-1''" "js_get ?b ''rating'' = JNum (Fin 4)"
    "comment_of ?b = ''nice''" "js_get buyer_payload ''userId'' = JStr ''u-2''"
    by (simp_all add: review_body_def comment_of_def buyer_payload_def)
  have v: "valid_review ?b"
    by (simp add: valid_review_def rating_in_range_def review_body_def js_lt_def js_gt_def
        trim_def is_ws_def)
  have req1: "review_request env_big (request ''tok-buyer'' ?b) ?b"
    and req2: "review_request env_big_noindex (request ''tok-buyer'' ?b) ?b"
    unfolding review_request_def buyer_review_request
    by (simp_all add: request_def review_body_def buyer_payload_def)
  have item1: "send_get env_big many_reviews_db ItemsT (''id'', js_get ?b ''itemId'') = Some (Some mug)"
    and item2: "send_get env_big_noindex many_reviews_db ItemsT (''id'', js_get ?b ''itemId'')
                  = Some (Some mug)"
    by (simp_all add: send_get_def env_big_def env_big_noindex_def env_ok_def many_reviews_db_def
        review_body_def holds_def mug_def)
  have q: "send_query env_big many_reviews_db (existingQuery (JStr ''item-1'') (JStr ''u-2''))
             = Some []"
    by (simp add: send_query_def run_query_def existingQuery_def page_simps env_big_def
        env_ok_def many_reviews_db_def holds_def holds_all_def review_a_def review_b_def
        review_d_def review_e_def)
  have q2: "send_query env_big_noindex many_reviews_db
              (existingQuery (JStr ''item-1'') (JStr ''u-2'')) = None"
    by (simp add: send_query_def env_big_noindex_def)
  have s2: "send_scan env_big_noindex many_reviews_db
              (existingScan (JStr ''item-1'') (JStr ''u-2'')) = Some []"
    by (simp add: send_scan_def run_scan_def existingScan_def page_simps env_big_noindex_def
        env_big_def env_ok_def many_reviews_db_def holds_def holds_all_def review_a_def
        review_b_def review_d_def review_e_def)
  have put1: "send_put env_big many_reviews_db ReviewsT
               (new_review env_big (JStr ''item-1'') (JStr ''u-2'') (JNum (Fin 4)) ''nice'')
             = Some (many_reviews_db(ReviewsT := [review_b, review_d, review_e, review_a,
                  new_review env_big (JStr ''item-1'') (JStr ''u-2'') (JNum (Fin 4)) ''nice'']))"
    by (simp add: send_put_def env_big_def env_ok_def new_review_def many_reviews_db_def
        put_item_def review_a_def review_b_def review_d_def review_e_def trim_def is_ws_def)
  have put2: "send_put env_big_noindex many_reviews_db ReviewsT
               (new_review env_big_noindex (JStr ''item-1'') (JStr ''u-2'') (JNum (Fin 4)) ''nice'')
             \<noteq> None"
    by (simp add: send_put_def env_big_noindex_def env_big_def env_ok_def new_review_def
        trim_def is_ws_def)
  have r1: "handleCreateReview env_big many_reviews_db (request ''tok-buyer'' ?b)
       = (Resp 201
            (JObj [(''message'', JStr ''Review created successfully''),
                   (''review'', JObj (new_review env_big (JStr ''item-1'') (JStr ''u-2'')
                                        (JNum (Fin 4)) ''nice''))]),
          many_reviews_db(ReviewsT := [review_b, review_d, review_e, review_a,
            new_review env_big (JStr ''item-1'') (JStr ''u-2'') (JNum (Fin 4)) ''nice'']))"
    unfolding createReview_lookup [OF req1 v item1] buyer_review_request ids
    by (simp add: q put1 review_answer_def)
  have r2: "status (fst (handleCreateReview env_big_noindex many_reviews_db
                (request ''tok-buyer'' ?b))) = 201"
    unfolding createReview_lookup [OF req2 v item2] buyer_review_request ids
    using put2 by (auto simp add: q2 s2 review_answer_def)
  from ex r1 r2 show ?thesis by simp
qed

text \<open>
  Claim C4, amended to lookups within one page. A review submission that is
  authenticated, passes validation and names an existing item, with the lookup of
  earlier reviews answered by the index or by the scan, and reading whole what it
  looks through (the reviews of the item by the index, the reviews table by the scan):
  when the store holds a review of that account for that item the answer is 409 and
  the store is unchanged; when it holds none the review is put, and the answer is 201
  with the store the put returns (500, store unchanged, when the put throws).
\<close>

theorem C4_duplicate_review_guard:
  assumes req: "review_request e ev b"
    and valid: "valid_review b"
    and item: "send_get e st ItemsT (''id'', js_get b ''itemId'') = Some (Some it)"
    and lookup: "send_query e st (existingQuery (js_get b ''itemId'') (js_get (verifyToken e ev) ''userId'')) \<noteq> None
                 \<or> send_scan e st (existingScan (js_get b ''itemId'') (js_get (verifyToken e ev) ''userId'')) \<noteq> None"
    and page: "guard_reads_all e st (js_get b ''itemId'') (js_get (verifyToken e ev) ''userId'')"
  shows "handleCreateReview e st ev =
     (if review_exists st (js_get b ''itemId'') (js_get (verifyToken e ev) ''userId'')
      then (Resp 409 (err ''You have already reviewed this item''), st)
      else (case send_put e st ReviewsT
                   (new_review e (js_get b ''itemId'') (js_get (verifyToken e ev) ''userId'')
                      (js_get b ''rating'') (comment_of b)) of
              None \<Rightarrow> (Resp 500 (err ''Failed to create review''), st)
            | Some st' \<Rightarrow>
                (Resp 201
                   (JObj [(''message'', JStr ''Review created successfully''),
                          (''review'',
                           JObj (new_review e (js_get b ''itemId'')
                                   (js_get (verifyToken e ev) ''userId'')
                                   (js_get b ''rating'') (comment_of b)))]), st')))"
  by (rule createReview_guard [OF req valid item lookup page])

text \<open>
  The shop holds a review of account \<open>u-2\<close> for the mug: that account is answered 409,
  account \<open>u-1\<close> is answered 201 and its review is stored.
\<close>

theorem C4_duplicate_review_guard_witness:
  "guard_reads_all env_ok shop_db (JStr ''item-1'') (JStr ''u-2'')
   \<and> guard_reads_all env_ok shop_db (JStr ''item-1'') (JStr ''u-1'')
   \<and> review_exists shop_db (JStr ''item-1'') (JStr ''u-2'')
   \<and> handleCreateReview env_ok shop_db (request ''tok-buyer'' (review_body (JNum (Fin 4)) ''nice''))
       = (Resp 409 (err ''You have already reviewed this item''), shop_db)
   \<and> \<not> review_exists shop_db (JStr ''item-1'') (JStr ''u-1'')
   \<and> status (fst (handleCreateReview env_ok shop_db
                (request ''tok-seller'' (review_body (JNum (Fin 4)) ''nice'')))) = 201
   \<and> snd (handleCreateReview env_ok shop_db
             (request ''tok-seller'' (review_body (JNum (Fin 4)) ''nice''))) ReviewsT
       = [review_a, review_b,
          new_review env_ok (JStr ''item-1'') (JStr ''u-1'') (JNum (Fin 4)) ''nice'']"
proof -
  let ?b = "review_body (JNum (Fin 4)) ''nice''"
  have tokb: "verifyToken env_ok (request ''tok-buyer'' ?b) = buyer_payload"
    and toks: "verifyToken env_ok (request ''tok-seller'' ?b) = seller_payload"
    by (simp_all add: verifyToken_def auth_header_def request_def startsWith_def env_ok_def)
  have reqb: "review_request env_ok (request ''tok-buyer'' ?b) ?b"
    and reqs: "review_request env_ok (request ''tok-seller'' ?b) ?b"
    unfolding review_request_def tokb toks
    by (simp_all add: request_def review_body_def buyer_payload_def seller_payload_def)
  have v: "valid_review ?b"
    by (simp add: valid_review_def rating_in_range_def review_body_def js_lt_def js_gt_def
        trim_def is_ws_def)
  have item: "send_get env_ok shop_db ItemsT (''id'', js_get ?b ''itemId'') = Some (Some mug)"
    by (simp add: send_get_def env_ok_def shop_db_def review_body_def holds_def mug_def)
  have lb: "send_query env_ok shop_db (existingQuery (js_get ?b ''itemId'')
              (js_get (verifyToken env_ok (request ''tok-buyer'' ?b)) ''userId'')) \<noteq> None
            \<or> send_scan env_ok shop_db (existingScan (js_get ?b ''itemId'')
              (js_get (verifyToken env_ok (request ''tok-buyer'' ?b)) ''userId'')) \<noteq> None"
    unfolding tokb
    by (simp add: send_query_def env_ok_def existingQuery_def review_body_def buyer_payload_def)
  have ls: "send_query env_ok shop_db (existingQuery (js_get ?b ''itemId'')
              (js_get (verifyToken env_ok (request ''tok-seller'' ?b)) ''userId'')) \<noteq> None
            \<or> send_scan env_ok shop_db (existingScan (js_get ?b ''itemId'')
              (js_get (verifyToken env_ok (request ''tok-seller'' ?b)) ''userId'')) \<noteq> None"
    unfolding toks
    by (simp add: send_query_def env_ok_def existingQuery_def review_body_def seller_payload_def)
  have ids: "js_get ?b ''itemId'' = JStr ''item-1''" "js_get ?b ''rating'' = JNum (Fin 4)"
    "comment_of ?b = ''nice''"
    "js_get buyer_payload ''userId'' = JStr ''u-2''" "js_get seller_payload ''userId'' = JStr ''u-1''"
    by (simp_all add: review_body_def comment_of_def buyer_payload_def seller_payload_def)
  have fit: "fits env_ok (shop_db ReviewsT)"
    by (simp add: fits_def page_simps env_ok_def shop_db_def)
  have pgb: "guard_reads_all env_ok shop_db (JStr ''item-1'') (JStr ''u-2'')"
    and pgs: "guard_reads_all env_ok shop_db (JStr ''item-1'') (JStr ''u-1'')"
    using fit by (simp_all add: fits_guard)
  have exb: "review_exists shop_db (JStr ''item-1'') (JStr ''u-2'')"
    by (simp add: review_exists_def shop_db_def holds_def review_a_def)
  have exs: "\<not> review_exists shop_db (JStr ''item-1'') (JStr ''u-1'')"
    by (simp add: review_exists_def shop_db_def holds_def review_a_def review_b_def)
  have put: "send_put env_ok shop_db ReviewsT
               (new_review env_ok (JStr ''item-1'') (JStr ''u-1'') (JNum (Fin 4)) ''nice'')
             = Some (shop_db(ReviewsT := [review_a, review_b,
                  new_review env_ok (JStr ''item-1'') (JStr ''u-1'') (JNum (Fin 4)) ''nice'']))"
    by (simp add: send_put_def env_ok_def new_review_def shop_db_def put_item_def
        review_a_def review_b_def trim_def is_ws_def)
  have r1: "handleCreateReview env_ok shop_db (request ''tok-buyer'' ?b)
              = (Resp 409 (err ''You have already reviewed this item''), shop_db)"
    using C4_duplicate_review_guard [OF reqb v item lb] pgb exb by (simp add: tokb ids)
  have r2: "handleCreateReview env_ok shop_db (request ''tok-seller'' ?b)
              = (Resp 201
                   (JObj [(''message'', JStr ''Review created successfully''),
                          (''review'', JObj (new_review env_ok (JStr ''item-1'') (JStr ''u-1'')
                                               (JNum (Fin 4)) ''nice''))]),
                 shop_db(ReviewsT := [review_a, review_b,
                  new_review env_ok (JStr ''item-1'') (JStr ''u-1'') (JNum (Fin 4)) ''nice'']))"
    using C4_duplicate_review_guard [OF reqs v item ls] pgs exs put by (simp add: toks ids)
  from pgb pgs exb exs r1 r2 show ?thesis by simp
qed

subsection \<open>The fallback from index to scan (C1)\<close>

lemma getOrders_falls_back:
  assumes "truthy (verifyToken e ev)"
  shows "falls_back e st (ordersQuery (js_get (verifyToken e ev) ''userId''))
           (ordersScan (js_get (verifyToken e ev) ''userId''))
           (handleGetOrders e st ev) (orders_answer e st)"
  using assms
  by (simp add: falls_back_def same_predicate_sites handleGetOrders_def orders_answer_def
      sendResponse_def Let_def split: option.splits)

lemma getItems_falls_back:
  assumes "map_of (ev_query ev) ''storeId'' = Some sid" "sid \<noteq> []"
  shows "falls_back e st (itemsQuery (JStr sid)) (itemsScan (JStr sid))
           (handleGetItems e st ev) (items_answer st)"
  using assms
  by (simp add: falls_back_def same_predicate_sites handleGetItems_def items_answer_def
      sendResponse_def split: option.splits)

lemma getReviews_falls_back:
  assumes "map_of (ev_query ev) ''itemId'' = Some iid" "iid \<noteq> []"
    "send_get e st ItemsT (''id'', JStr iid) = Some (Some it)"
  shows "falls_back e st (reviewsQuery (JStr iid)) (reviewsScan (JStr iid))
           (handleGetReviews e st ev) (reviews_answer e st)"
  using assms
  by (simp add: falls_back_def same_predicate_sites handleGetReviews_def reviews_answer_def
      sendResponse_def Let_def split: option.splits)

lemma createReview_falls_back:
  assumes "review_request e ev b" "valid_review b"
    "send_get e st ItemsT (''id'', js_get b ''itemId'') = Some (Some it)"
  shows "falls_back e st
           (existingQuery (js_get b ''itemId'') (js_get (verifyToken e ev) ''userId''))
           (existingScan (js_get b ''itemId'') (js_get (verifyToken e ev) ''userId''))
           (handleCreateReview e st ev)
           (review_answer e st (js_get b ''itemId'') (js_get (verifyToken e ev) ''userId'')
              (js_get b ''rating'') (comment_of b))"
  unfolding createReview_lookup [OF assms]
  by (simp add: falls_back_def same_predicate_sites split: option.splits)

lemma getMyStorefronts_falls_back:
  assumes "seller_request e ev"
  shows "falls_back e st (ownerQuery (js_get (verifyToken e ev) ''userId''))
           (ownerScan (js_get (verifyToken e ev) ''userId''))
           (handleGetMyStorefronts e st ev) (storefronts_answer st)"
  using assms
  by (simp add: falls_back_def same_predicate_sites handleGetMyStorefronts_def
      storefronts_answer_def seller_request_def sendResponse_def Let_def split: option.splits)

lemma answers_status:
  "status (fst (items_answer st found)) = 200"
  "status (fst (reviews_answer e st found)) = 200"
  "status (fst (storefronts_answer st found)) = 200"
  "those (map (enrich_order e st) found) \<noteq> None \<Longrightarrow>
     status (fst (orders_answer e st found)) = 200"
  "status (fst (review_answer e st i u r c found)) = 500 \<Longrightarrow>
     found = [] \<and> send_put e st ReviewsT (new_review e i u r c) = None"
  by (auto simp: items_answer_def reviews_answer_def storefronts_answer_def orders_answer_def
      review_answer_def split: option.splits if_splits)

lemma lower_example: "toLowerCase ''Alice@Example.com'' = ''alice@example.com''"
  by (simp add: toLowerCase_def lower_char_def upper_chars_def lower_chars_def)

text \<open>
  Claim C1 fails at the accounts-by-email lookup. With the index query throwing and the
  scan of the same predicate available (it would return the account), login answers
  500; with the index it answers 200.
\<close>

theorem C1_login_without_index_counterexample:
  "faults env_noindex (OpQuery (emailQuery ''alice@example.com'' None))
   \<and> send_scan env_noindex users_db (ScanCommand UsersT [(''email'', JStr ''alice@example.com'')])
       = Some [alice]
   \<and> handleLogin env_noindex users_db (request [] (login_body ''Alice@Example.com'' ''secret1''))
       = (Resp 500 (err ''Login failed''), users_db)
   \<and> status (fst (handleLogin env_ok users_db
                (request [] (login_body ''Alice@Example.com'' ''secret1'')))) = 200"
  by (simp add: handleLogin_def request_def login_body_def lower_example send_query_def
      send_scan_def run_scan_def run_query_def page_simps holds_all_def holds_def
      emailQuery_def env_noindex_def env_ok_def users_db_def alice_def sendResponse_def
      obj_without_def token_payload_def)

text \<open>
  Claim C1, amended to the call sites that have a scan path: orders by account, items
  by storefront, reviews by item, the reviews of one account for an item, storefronts
  by owner. For a request that reaches the lookup, each of the five handlers falls back:
  the scan is of the query's predicate; when the index query throws, the handler
  answers from the documents the scan returns just as it answers from the documents
  of the query when that one answers; the 500 of a failed lookup is given only when the
  query and the scan both throw. What a handler does with the documents found never
  fails in get-items, get-reviews and my-storefronts; in get-orders it fails only when
  reading the lines of an order throws, in create-review only when the put throws.
\<close>

theorem C1_fallback_where_present:
  "(truthy (verifyToken e ev) \<longrightarrow>
      falls_back e st (ordersQuery (js_get (verifyToken e ev) ''userId''))
        (ordersScan (js_get (verifyToken e ev) ''userId''))
        (handleGetOrders e st ev) (orders_answer e st))
   \<and> (map_of (ev_query ev) ''storeId'' = Some sid \<and> sid \<noteq> [] \<longrightarrow>
        falls_back e st (itemsQuery (JStr sid)) (itemsScan (JStr sid))
          (handleGetItems e st ev) (items_answer st))
   \<and> (map_of (ev_query ev) ''itemId'' = Some iid \<and> iid \<noteq> []
        \<and> send_get e st ItemsT (''id'', JStr iid) = Some (Some it) \<longrightarrow>
        falls_back e st (reviewsQuery (JStr iid)) (reviewsScan (JStr iid))
          (handleGetReviews e st ev) (reviews_answer e st))
   \<and> (review_request e ev b \<and> valid_review b
        \<and> send_get e st ItemsT (''id'', js_get b ''itemId'') = Some (Some it') \<longrightarrow>
        falls_back e st
          (existingQuery (js_get b ''itemId'') (js_get (verifyToken e ev) ''userId''))
          (existingScan (js_get b ''itemId'') (js_get (verifyToken e ev) ''userId''))
          (handleCreateReview e st ev)
          (review_answer e st (js_get b ''itemId'') (js_get (verifyToken e ev) ''userId'')
             (js_get b ''rating'') (comment_of b)))
   \<and> (seller_request e ev \<longrightarrow>
        falls_back e st (ownerQuery (js_get (verifyToken e ev) ''userId''))
          (ownerScan (js_get (verifyToken e ev) ''userId''))
          (handleGetMyStorefronts e st ev) (storefronts_answer st))
   \<and> status (fst (items_answer st found)) = 200
   \<and> status (fst (reviews_answer e st found)) = 200
   \<and> status (fst (storefronts_answer st found)) = 200
   \<and> (those (map (enrich_order e st) found) \<noteq> None \<longrightarrow>
        status (fst (orders_answer e st found)) = 200)
   \<and> (status (fst (review_answer e st i u r c found)) = 500 \<longrightarrow>
        found = [] \<and> send_put e st ReviewsT (new_review e i u r c) = None)"
  using getOrders_falls_back [of e ev st] getItems_falls_back [of ev sid e st]
    getReviews_falls_back [of ev iid e st it] createReview_falls_back [of e ev b st it']
    getMyStorefronts_falls_back [of e ev st] answers_status(4) [of e st found]
    answers_status(5) [of e st i u r c found]
  by (simp add: answers_status(1,2,3))

text \<open>
  Every index query throwing, get-items lists the mug of the store from the scan; on
  the table beyond a page get-reviews answers from what the scan returns, no review;
  with the scan throwing too, get-items answers 500.
\<close>

theorem C1_fallback_where_present_witness:
  "send_query env_noindex shop_db (itemsQuery (JStr ''store-1'')) = None
   \<and> send_scan env_noindex shop_db (itemsScan (JStr ''store-1'')) = Some [mug]
   \<and> handleGetItems env_noindex shop_db (query_request ''storeId'' ''store-1'')
       = (Resp 200 (JObj [(''items'', JArr [JObj mug])]), shop_db)
   \<and> send_query env_big_noindex big_reviews_db (reviewsQuery (JStr ''item-1'')) = None
   \<and> send_scan env_big_noindex big_reviews_db (reviewsScan (JStr ''item-1'')) = Some []
   \<and> handleGetReviews env_big_noindex big_reviews_db (query_request ''itemId'' ''item-1'')
       = reviews_answer env_big_noindex big_reviews_db []
   \<and> send_query env_down shop_db (itemsQuery (JStr ''store-1'')) = None
   \<and> send_scan env_down shop_db (itemsScan (JStr ''store-1'')) = None
   \<and> status (fst (handleGetItems env_down shop_db (query_request ''storeId'' ''store-1''))) = 500"
proof -
  have sid: "map_of (ev_query (query_request ''storeId'' ''store-1'')) ''storeId'' = Some ''store-1''"
    and iid: "map_of (ev_query (query_request ''itemId'' ''item-1'')) ''itemId'' = Some ''item-1''"
    by (simp_all add: query_request_def)
  have q1: "send_query env_noindex shop_db (itemsQuery (JStr ''store-1'')) = None"
    and q2: "send_query env_big_noindex big_reviews_db (reviewsQuery (JStr ''item-1'')) = None"
    and q3: "send_query env_down shop_db (itemsQuery (JStr ''store-1'')) = None"
    and s3: "send_scan env_down shop_db (itemsScan (JStr ''store-1'')) = None"
    by (simp_all add: send_query_def send_scan_def env_noindex_def env_big_noindex_def
        env_down_def)
  have s1: "send_scan env_noindex shop_db (itemsScan (JStr ''store-1'')) = Some [mug]"
    by (simp add: send_scan_def run_scan_def itemsScan_def page_simps env_noindex_def env_ok_def
        shop_db_def holds_def holds_all_def mug_def)
  have s2: "send_scan env_big_noindex big_reviews_db (reviewsScan (JStr ''item-1'')) = Some []"
    by (simp add: send_scan_def run_scan_def reviewsScan_def page_simps env_big_noindex_def
        env_big_def env_ok_def big_reviews_db_def holds_def holds_all_def review_a_def
        review_x_def review_y_def review_z_def)
  have it: "send_get env_big_noindex big_reviews_db ItemsT (''id'', JStr ''item-1'')
              = Some (Some mug)"
    by (simp add: send_get_def env_big_noindex_def big_reviews_db_def holds_def mug_def)
  from C1_fallback_where_present [where e = env_noindex and st = shop_db
      and ev = "query_request ''storeId'' ''store-1''" and sid = "''store-1''"] sid q1 s1
  have r1: "handleGetItems env_noindex shop_db (query_request ''storeId'' ''store-1'')
       = (Resp 200 (JObj [(''items'', JArr [JObj mug])]), shop_db)"
    by (simp add: falls_back_def items_answer_def)
  from C1_fallback_where_present [where e = env_big_noindex and st = big_reviews_db
      and ev = "query_request ''itemId'' ''item-1''" and iid = "''item-1''" and it = mug]
    iid q2 s2 it
  have r2: "handleGetReviews env_big_noindex big_reviews_db (query_request ''itemId'' ''item-1'')
       = reviews_answer env_big_noindex big_reviews_db []"
    by (simp add: falls_back_def)
  from C1_fallback_where_present [where e = env_down and st = shop_db
      and ev = "query_request ''storeId'' ''store-1''" and sid = "''store-1''"] sid q3 s3
  have r3: "status (fst (handleGetItems env_down shop_db (query_request ''storeId'' ''store-1''))) = 500"
    by (simp add: falls_back_def)
  from q1 s1 r1 q2 s2 r2 q3 s3 r3 show ?thesis by simp
qed

subsection \<open>Registration and login (C5, C6)\<close>

lemma the_string_Some: "the_string v = Some s \<Longrightarrow> v = JStr s"
  by (cases v) simp_all

lemma register_created:
  assumes "handleRegister e st ev = (Resp 201 b, st')"
  shows "\<exists>r em pw. parse_body (ev_body ev) = Some r
           \<and> js_get r ''email'' = JStr em \<and> em \<noteq> []
           \<and> js_get r ''password'' = JStr pw \<and> pw \<noteq> []
           \<and> email_taken e st (JStr em) \<noteq> Some True
           \<and> send_put e st UsersT (new_user e em (js_get r ''name'') pw (js_get r ''role'')) = Some st'
           \<and> (\<exists>tok. jwt_sign e (token_payload (JStr (uuidv4 e)) (JStr (toLowerCase em))
                                    (js_get r ''role'')) = Some tok
                \<and> b = JObj [(''message'', JStr ''User created successfully''),
                             (''user'', JObj (obj_without ''password''
                                (new_user e em (js_get r ''name'') pw (js_get r ''role'')))),
                             (''token'', JStr tok)])"
proof -
  from assms obtain r where r: "parse_body (ev_body ev) = Some r"
    by (auto simp: handleRegister_def split: option.splits)
  from assms r obtain pw em where s: "the_string (js_get r ''password'') = Some pw"
      "the_string (js_get r ''email'') = Some em"
    by (auto simp: handleRegister_def sendResponse_def Let_def split: option.splits if_splits)
  from s have v: "js_get r ''password'' = JStr pw" "js_get r ''email'' = JStr em"
    by (simp_all add: the_string_Some)
  show ?thesis
    using assms r s v
    by (auto simp: handleRegister_def sendResponse_def Let_def split: option.splits if_splits)
qed

lemma put_item_first:
  assumes "filter P xs = []" "P it"
  shows "\<exists>rest. filter P (put_item k it xs) = it # rest"
proof (cases "list_ex (\<lambda>x. map_of x k = map_of it k) xs")
  case False
  then show ?thesis using assms by (simp add: put_item_def)
next
  case True
  have "\<And>rest0. filter P xs = [] \<Longrightarrow> list_ex (\<lambda>x. map_of x k = map_of it k) xs \<Longrightarrow>
        \<exists>rest. filter P (map (\<lambda>x. if map_of x k = map_of it k then it else x) xs) = it # rest"
  proof (induction xs)
    case Nil
    then show ?case by simp
  next
    case (Cons x xs)
    then show ?case using assms(2) by (auto split: if_splits)
  qed
  then show ?thesis using True assms by (simp add: put_item_def)
qed


text \<open>A duplicate check that was made and found nothing: the address is fresh.\<close>

lemma email_free:
  assumes "email_taken e st (JStr em) = Some False"
  shows "email_fresh st em"
proof -
  from assms have "run_query (doc_bytes e) st (emailQuery (toLowerCase em) (Some 1)) = []"
    by (auto simp: email_taken_def send_query_def split: option.splits if_splits)
  then have "take 1 (first_page (doc_bytes e) page_bytes
               (filter (holds (''email'', JStr (toLowerCase em))) (st UsersT))) = []"
    by (simp add: run_query_def emailQuery_def holds_all_def [abs_def])
  then show ?thesis
    by (cases "filter (holds (''email'', JStr (toLowerCase em))) (st UsersT)")
       (simp_all add: email_fresh_def doc_bytes_le)
qed

lemma new_user_fields:
  "js_get (JObj (new_user e em name pw role)) ''password'' = JStr (bcrypt_hash e pw)"
  "js_get (JObj (new_user e em name pw role)) ''userId'' = JStr (uuidv4 e)"
  "js_get (JObj (new_user e em name pw role)) ''email'' = JStr (toLowerCase em)"
  "js_get (JObj (new_user e em name pw role)) ''role'' = role"
  "holds (''email'', JStr (toLowerCase em)) (new_user e em name pw role)"
  "map_of (obj_without ''password'' (new_user e em name pw role)) ''password'' = None"
  "js_get (JObj (obj_without ''password'' (new_user e em name pw role))) ''userId'' = JStr (uuidv4 e)"
  "js_get (JObj (obj_without ''password'' (new_user e em name pw role))) ''role'' = role"
  by (simp_all add: new_user_def holds_def obj_without_def)

lemma lower_examples:
  "toLowerCase ''ALICE@example.com'' = ''alice@example.com''"
  "toLowerCase ''alice@example.com'' = ''alice@example.com''"
  by (simp_all add: toLowerCase_def lower_char_def upper_chars_def lower_chars_def)

lemma mallory_registered:
  "handleRegister env_u9_noindex users_db
     (request [] (register_body ''Mallory'' ''ALICE@example.com'' ''password9''))
   = (Resp 201
        (JObj [(''message'', JStr ''User created successfully''),
               (''user'', JObj (obj_without ''password'' mallory)),
               (''token'', JStr ''tok-seller'')]),
      users_db(UsersT := [alice, mallory]))"
proof -
  have taken: "email_taken env_u9_noindex users_db (JStr ''ALICE@example.com'') = None"
    by (simp add: email_taken_def send_query_def env_u9_noindex_def env_noindex_def)
  have put: "send_put env_u9_noindex users_db UsersT mallory
             = Some (users_db(UsersT := [alice, mallory]))"
    by (simp add: send_put_def env_u9_noindex_def env_noindex_def env_ok_def mallory_def
        new_user_def put_item_def users_db_def alice_def)
  have tok: "jwt_sign env_u9_noindex
               (token_payload (JStr (uuidv4 env_u9_noindex))
                  (JStr (toLowerCase ''ALICE@example.com'')) (JStr ''seller'')) = Some ''tok-seller''"
    by (simp add: env_u9_noindex_def env_noindex_def env_ok_def token_payload_def)
  show ?thesis
    using taken put tok
    by (simp add: handleRegister_def request_def register_body_def js_lt_def sendResponse_def
        mallory_def [symmetric])
qed

lemma alice_registered:
  "handleRegister env_u1_noindex empty_db
     (request [] (register_body ''Alice'' ''Alice@Example.com'' ''secret1''))
   = (Resp 201
        (JObj [(''message'', JStr ''User created successfully''),
               (''user'', JObj (obj_without ''password'' alice_new)),
               (''token'', JStr ''tok-seller'')]),
      empty_db(UsersT := [alice_new]))"
proof -
  have u: "new_user env_u1_noindex ''Alice@Example.com'' (JStr ''Alice'') ''secret1''
             (JStr ''seller'') = alice_new"
    by (simp add: alice_new_def new_user_def env_u1_noindex_def env_noindex_def env_u1_def
        env_ok_def)
  have taken: "email_taken env_u1_noindex empty_db (JStr ''Alice@Example.com'') = None"
    by (simp add: email_taken_def send_query_def env_u1_noindex_def env_noindex_def)
  have put: "send_put env_u1_noindex empty_db UsersT alice_new
               = Some (empty_db(UsersT := [alice_new]))"
    by (simp add: send_put_def env_u1_noindex_def env_noindex_def env_ok_def alice_new_def
        new_user_def put_item_def empty_db_def)
  have tok: "jwt_sign env_u1_noindex
               (token_payload (JStr (uuidv4 env_u1_noindex))
                  (JStr (toLowerCase ''Alice@Example.com'')) (JStr ''seller'')) = Some ''tok-seller''"
    by (simp add: env_u1_noindex_def env_noindex_def env_ok_def token_payload_def)
  show ?thesis
    using taken put tok
    by (simp add: handleRegister_def request_def register_body_def js_lt_def sendResponse_def u)
qed

text \<open>
  Claim C5 fails for registrations answered 201 in two ways. Mallory registers
  \<open>ALICE@example.com\<close> while the email index query throws and an account of that
  address is stored: 201; her login, the index answering, reads the older account
  first and is answered 401. Alice registers a fresh address while the index query
  throws: 201; her login, the index query still throwing, is answered 500.
\<close>

theorem C5_login_after_register_counterexample:
  "handleRegister env_u9_noindex users_db
     (request [] (register_body ''Mallory'' ''ALICE@example.com'' ''password9''))
     = (Resp 201
          (JObj [(''message'', JStr ''User created successfully''),
                 (''user'', JObj (obj_without ''password'' mallory)),
                 (''token'', JStr ''tok-seller'')]),
        users_db(UsersT := [alice, mallory]))
   \<and> handleLogin env_ok (users_db(UsersT := [alice, mallory]))
         (request [] (login_body ''ALICE@example.com'' ''password9''))
       = (Resp 401 (err ''Invalid email or password''), users_db(UsersT := [alice, mallory]))
   \<and> handleRegister env_u1_noindex empty_db
         (request [] (register_body ''Alice'' ''Alice@Example.com'' ''secret1''))
       = (Resp 201
            (JObj [(''message'', JStr ''User created successfully''),
                   (''user'', JObj (obj_without ''password'' alice_new)),
                   (''token'', JStr ''tok-seller'')]),
          empty_db(UsersT := [alice_new]))
   \<and> handleLogin env_noindex (empty_db(UsersT := [alice_new]))
         (request [] (login_body ''Alice@Example.com'' ''secret1''))
       = (Resp 500 (err ''Login failed''), empty_db(UsersT := [alice_new]))"
proof -
  have l1: "handleLogin env_ok (users_db(UsersT := [alice, mallory]))
         (request [] (login_body ''ALICE@example.com'' ''password9''))
       = (Resp 401 (err ''Invalid email or password''), users_db(UsersT := [alice, mallory]))"
    by (simp add: handleLogin_def request_def login_body_def lower_examples send_query_def
        run_query_def page_simps holds_all_def holds_def emailQuery_def env_ok_def alice_def
        mallory_def new_user_def env_u9_noindex_def env_noindex_def sendResponse_def)
  have l2: "handleLogin env_noindex (empty_db(UsersT := [alice_new]))
         (request [] (login_body ''Alice@Example.com'' ''secret1''))
       = (Resp 500 (err ''Login failed''), empty_db(UsersT := [alice_new]))"
    by (simp add: handleLogin_def request_def login_body_def send_query_def env_noindex_def
        sendResponse_def)
  from mallory_registered l1 alice_registered l2 show ?thesis by simp
qed

text \<open>
  Claim C5, amended. Every registration answered 201 returns an account with no
  password field. When no stored account had the address (lower-cased) before the
  registration, a login with the same email and password on the store it leaves, the
  email index query answering, the hash comparing equal to its password and the token
  signed and verifying, is answered 200 with a token that verifies to the account id
  and role of the registration response.
\<close>

theorem C5_register_then_login:
  assumes reg: "handleRegister e1 st ev1 = (Resp 201 b1, st1)"
    and body1: "parse_body (ev_body ev1) = Some r1"
    and cred: "js_get r1 ''email'' = JStr email" "js_get r1 ''password'' = JStr password"
  shows "\<exists>u. js_get b1 ''user'' = JObj u \<and> map_of u ''password'' = None
          \<and> (email_fresh st email
               \<and> parse_body (ev_body ev2) = Some r2
               \<and> js_get r2 ''email'' = JStr email \<and> js_get r2 ''password'' = JStr password
               \<and> \<not> faults e2 (OpQuery (emailQuery (toLowerCase email) None))
               \<and> bcrypt_compare e2 password (bcrypt_hash e1 password)
               \<and> token_roundtrip e2 e3
                     (token_payload (JStr (uuidv4 e1)) (JStr (toLowerCase email))
                        (js_get r1 ''role'')) \<longrightarrow>
               (\<exists>b2 tok d. handleLogin e2 st1 ev2 = (Resp 200 b2, st1)
                  \<and> js_get b2 ''token'' = JStr tok
                  \<and> jwt_verify e3 tok = Some d
                  \<and> js_get d ''userId'' = js_get (JObj u) ''userId''
                  \<and> js_get d ''role'' = js_get (JObj u) ''role''))"
proof -
  from register_created [OF reg] body1 obtain em pw tok1 where
    em: "js_get r1 ''email'' = JStr em" "em \<noteq> []"
    and pw: "js_get r1 ''password'' = JStr pw" "pw \<noteq> []"
    and put: "send_put e1 st UsersT (new_user e1 em (js_get r1 ''name'') pw (js_get r1 ''role'')) = Some st1"
    and b1: "b1 = JObj [(''message'', JStr ''User created successfully''),
                        (''user'', JObj (obj_without ''password''
                           (new_user e1 em (js_get r1 ''name'') pw (js_get r1 ''role'')))),
                        (''token'', JStr tok1)]"
    by auto
  let ?user = "new_user e1 em (js_get r1 ''name'') pw (js_get r1 ''role'')"
  let ?p = "token_payload (JStr (uuidv4 e1)) (JStr (toLowerCase em)) (js_get r1 ''role'')"
  from em pw cred have [simp]: "email = em" "password = pw" by simp_all
  from put have st1: "st1 = st(UsersT := put_item ''userId'' ?user (st UsersT))"
    by (auto simp: send_put_def split: if_splits)
  have login: "\<exists>b2 tok d. handleLogin e2 st1 ev2 = (Resp 200 b2, st1)
                  \<and> js_get b2 ''token'' = JStr tok
                  \<and> jwt_verify e3 tok = Some d
                  \<and> js_get d ''userId'' = js_get (JObj (obj_without ''password'' ?user)) ''userId''
                  \<and> js_get d ''role'' = js_get (JObj (obj_without ''password'' ?user)) ''role''"
    if fresh: "email_fresh st em"
      and body2: "parse_body (ev_body ev2) = Some r2"
      and same: "js_get r2 ''email'' = JStr em" "js_get r2 ''password'' = JStr pw"
      and index: "\<not> faults e2 (OpQuery (emailQuery (toLowerCase em) None))"
      and bcrypt: "bcrypt_compare e2 pw (bcrypt_hash e1 pw)"
      and jwt: "token_roundtrip e2 e3 ?p"
  proof -
    from fresh have none: "filter (holds (''email'', JStr (toLowerCase em))) (st UsersT) = []"
      by (simp add: email_fresh_def)
    have "\<exists>rest. filter (holds (''email'', JStr (toLowerCase em)))
                   (put_item ''userId'' ?user (st UsersT)) = ?user # rest"
      by (rule put_item_first [OF none new_user_fields(5)])
    then obtain rest where
      hits: "filter (holds (''email'', JStr (toLowerCase em))) (put_item ''userId'' ?user (st UsersT))
             = ?user # rest"
      by blast
    have q: "send_query e2 st1 (emailQuery (toLowerCase em) None)
               = Some (?user # first_page (doc_bytes e2) (page_bytes - doc_bytes e2 ?user) rest)"
      using index hits st1
      by (simp add: send_query_def emailQuery_def run_query_def holds_all_def [abs_def]
          doc_bytes_le)
    from jwt obtain tok d where tok: "jwt_sign e2 ?p = Some tok"
      and d: "jwt_verify e3 tok = Some d"
      "js_get d ''userId'' = JStr (uuidv4 e1)" "js_get d ''role'' = js_get r1 ''role''"
      by (auto simp: token_roundtrip_def token_payload_def split: option.splits)
    let ?b2 = "JObj [(''message'', JStr ''Login successful''),
                     (''user'', JObj (obj_without ''password'' ?user)),
                     (''token'', JStr tok)]"
    have login: "handleLogin e2 st1 ev2 = (Resp 200 ?b2, st1)"
      using body2 same em pw q bcrypt tok
      by (simp add: handleLogin_def new_user_fields sendResponse_def del: js_get.simps)
    show ?thesis
    proof (intro exI conjI)
      show "handleLogin e2 st1 ev2 = (Resp 200 ?b2, st1)" by (rule login)
      show "js_get ?b2 ''token'' = JStr tok" by simp
      show "jwt_verify e3 tok = Some d" by (rule d(1))
      show "js_get d ''userId'' = js_get (JObj (obj_without ''password'' ?user)) ''userId''"
        using d(2) by (simp only: new_user_fields(7))
      show "js_get d ''role'' = js_get (JObj (obj_without ''password'' ?user)) ''role''"
        using d(3) by (simp only: new_user_fields(8))
    qed
  qed
  have user: "js_get b1 ''user'' = JObj (obj_without ''password'' ?user)" using b1 by simp
  have nopw: "map_of (obj_without ''password'' ?user) ''password'' = None"
    by (rule new_user_fields(6))
  have after: "email_fresh st email
               \<and> parse_body (ev_body ev2) = Some r2
               \<and> js_get r2 ''email'' = JStr email \<and> js_get r2 ''password'' = JStr password
               \<and> \<not> faults e2 (OpQuery (emailQuery (toLowerCase email) None))
               \<and> bcrypt_compare e2 password (bcrypt_hash e1 password)
               \<and> token_roundtrip e2 e3
                     (token_payload (JStr (uuidv4 e1)) (JStr (toLowerCase email))
                        (js_get r1 ''role'')) \<longrightarrow>
               (\<exists>b2 tok d. handleLogin e2 st1 ev2 = (Resp 200 b2, st1)
                  \<and> js_get b2 ''token'' = JStr tok
                  \<and> jwt_verify e3 tok = Some d
                  \<and> js_get d ''userId'' = js_get (JObj (obj_without ''password'' ?user)) ''userId''
                  \<and> js_get d ''role'' = js_get (JObj (obj_without ''password'' ?user)) ''role'')"
  proof (rule impI)
    assume a: "email_fresh st email
               \<and> parse_body (ev_body ev2) = Some r2
               \<and> js_get r2 ''email'' = JStr email \<and> js_get r2 ''password'' = JStr password
               \<and> \<not> faults e2 (OpQuery (emailQuery (toLowerCase email) None))
               \<and> bcrypt_compare e2 password (bcrypt_hash e1 password)
               \<and> token_roundtrip e2 e3
                     (token_payload (JStr (uuidv4 e1)) (JStr (toLowerCase email))
                        (js_get r1 ''role''))"
    show "\<exists>b2 tok d. handleLogin e2 st1 ev2 = (Resp 200 b2, st1)
                  \<and> js_get b2 ''token'' = JStr tok
                  \<and> jwt_verify e3 tok = Some d
                  \<and> js_get d ''userId'' = js_get (JObj (obj_without ''password'' ?user)) ''userId''
                  \<and> js_get d ''role'' = js_get (JObj (obj_without ''password'' ?user)) ''role''"
      by (rule login) (use a in simp_all)
  qed
  from user nopw after show ?thesis by blast
qed

text \<open>
  Alice registers a fresh address on an empty store while the email index query throws
  (the duplicate check is skipped), and logs in, the index answering, with the address
  as she typed it.
\<close>

theorem C5_register_then_login_witness:
  "handleRegister env_u1_noindex empty_db
       (request [] (register_body ''Alice'' ''Alice@Example.com'' ''secret1''))
     = (Resp 201
          (JObj [(''message'', JStr ''User created successfully''),
                 (''user'', JObj (obj_without ''password'' alice_new)),
                 (''token'', JStr ''tok-seller'')]),
        empty_db(UsersT := [alice_new]))
   \<and> email_taken env_u1_noindex empty_db (JStr ''Alice@Example.com'') = None
   \<and> email_fresh empty_db ''Alice@Example.com''
   \<and> bcrypt_compare env_ok ''secret1'' (bcrypt_hash env_u1_noindex ''secret1'')
   \<and> map_of (obj_without ''password'' alice_new) ''password'' = None
   \<and> (\<exists>b2 tok d. handleLogin env_ok (empty_db(UsersT := [alice_new]))
                      (request [] (login_body ''Alice@Example.com'' ''secret1''))
                    = (Resp 200 b2, empty_db(UsersT := [alice_new]))
         \<and> js_get b2 ''token'' = JStr tok \<and> jwt_verify env_ok tok = Some d
         \<and> js_get d ''userId'' = JStr ''u-1'' \<and> js_get d ''role'' = JStr ''seller'')"
proof -
  let ?ev1 = "request [] (register_body ''Alice'' ''Alice@Example.com'' ''secret1'')"
  let ?ev2 = "request [] (login_body ''Alice@Example.com'' ''secret1'')"
  let ?r1 = "register_body ''Alice'' ''Alice@Example.com'' ''secret1''"
  let ?r2 = "login_body ''Alice@Example.com'' ''secret1''"
  have taken: "email_taken env_u1_noindex empty_db (JStr ''Alice@Example.com'') = None"
    by (simp add: email_taken_def send_query_def env_u1_noindex_def env_noindex_def)
  have fresh: "email_fresh empty_db ''Alice@Example.com''"
    by (simp add: email_fresh_def empty_db_def)
  have b1: "parse_body (ev_body ?ev1) = Some ?r1" and b2: "parse_body (ev_body ?ev2) = Some ?r2"
    by (simp_all add: request_def register_body_def login_body_def)
  have cred: "js_get ?r1 ''email'' = JStr ''Alice@Example.com''"
    "js_get ?r1 ''password'' = JStr ''secret1''"
    and same: "js_get ?r2 ''email'' = JStr ''Alice@Example.com''"
    "js_get ?r2 ''password'' = JStr ''secret1''"
    by (simp_all add: register_body_def login_body_def)
  have idx: "\<not> faults env_ok (OpQuery (emailQuery (toLowerCase ''Alice@Example.com'') None))"
    by (simp add: env_ok_def)
  have bc: "bcrypt_compare env_ok ''secret1'' (bcrypt_hash env_u1_noindex ''secret1'')"
    by (simp add: env_ok_def env_u1_noindex_def env_noindex_def)
  have rt: "token_roundtrip env_ok env_ok
              (token_payload (JStr (uuidv4 env_u1_noindex))
                 (JStr (toLowerCase ''Alice@Example.com'')) (js_get ?r1 ''role''))"
    by (simp add: token_roundtrip_def token_payload_def env_ok_def env_u1_noindex_def
        env_noindex_def register_body_def seller_payload_def)
  have nopw: "map_of (obj_without ''password'' alice_new) ''password'' = None"
    by (simp add: alice_new_def new_user_def obj_without_def)
  have ids: "js_get (JObj (obj_without ''password'' alice_new)) ''userId'' = JStr ''u-1''"
    "js_get (JObj (obj_without ''password'' alice_new)) ''role'' = JStr ''seller''"
    by (simp_all add: alice_new_def new_user_def obj_without_def env_u1_def)
  have user: "js_get (JObj [(''message'', JStr ''User created successfully''),
                 (''user'', JObj (obj_without ''password'' alice_new)),
                 (''token'', JStr ''tok-seller'')]) ''user''
              = JObj (obj_without ''password'' alice_new)"
    by simp
  from C5_register_then_login [OF alice_registered b1 cred, of ?ev2 ?r2 env_ok env_ok]
    fresh b2 same idx bc rt
  have "\<exists>b2 tok d. handleLogin env_ok (empty_db(UsersT := [alice_new])) ?ev2
                    = (Resp 200 b2, empty_db(UsersT := [alice_new]))
         \<and> js_get b2 ''token'' = JStr tok \<and> jwt_verify env_ok tok = Some d
         \<and> js_get d ''userId'' = JStr ''u-1'' \<and> js_get d ''role'' = JStr ''seller''"
    using ids user by (auto simp del: js_get.simps)
  with alice_registered taken fresh bc nopw show ?thesis by blast
qed

text \<open>
  Claim C6 at an input where the code departs from it. The store holds an account of
  \<open>alice@example.com\<close> and the email index query throws: the registration of
  \<open>ALICE@example.com\<close> skips the duplicate check, is answered 201, and the store then
  holds two accounts of the same address (the put is keyed by the fresh account id, so
  it cannot fail on the address, as the comment at the catch expects). With the index
  answering, the same request is answered 409.
\<close>

theorem C6_duplicate_email_without_index:
  "faults env_u9_noindex (OpQuery (emailQuery ''alice@example.com'' (Some 1)))
   \<and> map_of alice ''email'' = Some (JStr ''alice@example.com'')
   \<and> status (fst (handleRegister env_u9_noindex users_db
                (request [] (register_body ''Mallory'' ''ALICE@example.com'' ''password9'')))) = 201
   \<and> snd (handleRegister env_u9_noindex users_db
             (request [] (register_body ''Mallory'' ''ALICE@example.com'' ''password9''))) UsersT
       = [alice, mallory]
   \<and> map_of mallory ''email'' = Some (JStr ''alice@example.com'')
   \<and> fst (handleRegister (env_ok\<lparr>uuidv4 := ''u-9''\<rparr>) users_db
             (request [] (register_body ''Mallory'' ''ALICE@example.com'' ''password9'')))
       = Resp 409 (err ''User with this email already exists'')"
proof -
  have taken_ok: "email_taken (env_ok\<lparr>uuidv4 := ''u-9''\<rparr>) users_db (JStr ''ALICE@example.com'')
                  = Some True"
    by (simp add: email_taken_def send_query_def env_ok_def emailQuery_def run_query_def
        page_simps lower_examples users_db_def holds_def holds_all_def alice_def)
  have ok: "fst (handleRegister (env_ok\<lparr>uuidv4 := ''u-9''\<rparr>) users_db
             (request [] (register_body ''Mallory'' ''ALICE@example.com'' ''password9'')))
       = Resp 409 (err ''User with this email already exists'')"
    using taken_ok
    by (simp add: handleRegister_def request_def register_body_def js_lt_def sendResponse_def)
  have f: "faults env_u9_noindex (OpQuery (emailQuery ''alice@example.com'' (Some 1)))"
    by (simp add: env_u9_noindex_def env_noindex_def)
  have e1: "map_of alice ''email'' = Some (JStr ''alice@example.com'')"
    by (simp add: alice_def)
  have e2: "map_of mallory ''email'' = Some (JStr ''alice@example.com'')"
    by (simp add: mallory_def new_user_def lower_examples)
  from f e1 e2 mallory_registered ok show ?thesis by simp
qed

text \<open>The registration above is answered 201 although the address is taken.\<close>

theorem C6_duplicate_email_without_index_witness:
  "status (fst (handleRegister env_u9_noindex users_db
             (request [] (register_body ''Mallory'' ''ALICE@example.com'' ''password9'')))) = 201
   \<and> length (snd (handleRegister env_u9_noindex users_db
             (request [] (register_body ''Mallory'' ''ALICE@example.com'' ''password9''))) UsersT) = 2"
  using C6_duplicate_email_without_index by simp


lemma put_item_keeps:
  assumes "P it"
  shows "filter P (put_item k it xs) \<noteq> []"
proof (cases "list_ex (\<lambda>x. map_of x k = map_of it k) xs")
  case False
  then show ?thesis using assms by (simp add: put_item_def)
next
  case True
  then have "it \<in> set (map (\<lambda>x. if map_of x k = map_of it k then it else x) xs)"
    by (induction xs) auto
  then have "it \<in> set (filter P (put_item k it xs))"
    using True assms by (simp add: put_item_def)
  then show ?thesis by (metis empty_iff empty_set)
qed

text \<open>
  With the email index answering, the second of two registrations whose addresses
  agree after lowercasing is answered 409 and writes nothing.
\<close>

lemma register_duplicate_rejected:
  assumes first: "handleRegister e1 st ev1 = (Resp 201 b1, st1)"
    and body1: "parse_body (ev_body ev1) = Some r1"
    and body2: "parse_body (ev_body ev2) = Some r2"
    and em1: "js_get r1 ''email'' = JStr email1"
    and em2: "js_get r2 ''email'' = JStr email2"
    and same: "toLowerCase email2 = toLowerCase email1"
    and ok2: "register_fields_ok r2"
    and index: "\<not> faults e2 (OpQuery (emailQuery (toLowerCase email2) (Some 1)))"
  shows "handleRegister e2 st1 ev2 = (Resp 409 (err ''User with this email already exists''), st1)"
proof -
  from register_created [OF first] body1 em1 obtain pw where
    put: "send_put e1 st UsersT (new_user e1 email1 (js_get r1 ''name'') pw (js_get r1 ''role'')) = Some st1"
    by auto
  let ?user = "new_user e1 email1 (js_get r1 ''name'') pw (js_get r1 ''role'')"
  from put have st1: "st1 UsersT = put_item ''userId'' ?user (st UsersT)"
    by (auto simp: send_put_def split: if_splits)
  have "filter (holds (''email'', JStr (toLowerCase email1))) (st1 UsersT) \<noteq> []"
    unfolding st1 by (rule put_item_keeps) (rule new_user_fields(5))
  then have "run_query (doc_bytes e2) st1 (emailQuery (toLowerCase email2) (Some 1)) \<noteq> []"
    by (cases "filter (holds (''email'', JStr (toLowerCase email1))) (st1 UsersT)")
       (simp_all add: run_query_def emailQuery_def holds_all_def [abs_def] same
          doc_bytes_le)
  then have "email_taken e2 st1 (JStr email2) = Some True"
    using index by (simp add: email_taken_def send_query_def emailQuery_def)
  then show ?thesis
    using body2 em2 ok2
    by (auto simp: handleRegister_def register_fields_ok_def sendResponse_def Let_def)
qed

subsection \<open>The owner fields of a storefront (C9)\<close>

lemma find_put_item:
  assumes "map_of it k = Some v"
  shows "find (holds (k, v)) (put_item k it xs) = Some it"
proof (cases "list_ex (\<lambda>x. map_of x k = map_of it k) xs")
  case False
  then have "find (holds (k, v)) (xs @ [it]) = Some it"
    using assms by (induction xs) (auto simp: holds_def)
  then show ?thesis using False by (simp add: put_item_def)
next
  case True
  then have "find (holds (k, v)) (map (\<lambda>x. if map_of x k = map_of it k then it else x) xs) = Some it"
    using assms by (induction xs) (auto simp: holds_def)
  then show ?thesis using True by (simp add: put_item_def)
qed

lemma createStorefront_created:
  assumes "handleCreateStorefront e st ev = (Resp 201 b, st')"
  shows "\<exists>r st1. parse_body (ev_body ev) = Some r
           \<and> send_put e st StorefrontsT (new_storefront e (verifyToken e ev) r) = Some st1
           \<and> send_update e st1 UsersT (''userId'', js_get (verifyToken e ev) ''userId'')
                (''hasStorefront'', JBool True) = Some st'
           \<and> b = JObj [(''message'', JStr ''Storefront created successfully''),
                        (''storefront'', JObj (new_storefront e (verifyToken e ev) r))]"
  using assms
  by (auto simp: handleCreateStorefront_def sendResponse_def unauthorized_def Let_def
      split: option.splits if_splits)

text \<open>
  Claim C9, amended. The storefront stored by a create-storefront answered 201 has as
  \<open>owner\<close> the account id of the creator's token and as \<open>ownerName\<close> the email
  of that token (the token carries no display name).
\<close>

theorem C9_storefront_owner_fields:
  assumes "handleCreateStorefront e st ev = (Resp 201 b, st')"
  shows "\<exists>sf. find (holds (''storeId'', JStr (uuidv4 e))) (st' StorefrontsT) = Some sf
          \<and> js_get b ''storefront'' = JObj sf
          \<and> map_of sf ''owner'' = Some (js_get (verifyToken e ev) ''userId'')
          \<and> map_of sf ''ownerName'' = Some (js_get (verifyToken e ev) ''email'')"
proof -
  from createStorefront_created [OF assms] obtain r st1 where
    put: "send_put e st StorefrontsT (new_storefront e (verifyToken e ev) r) = Some st1"
    and upd: "send_update e st1 UsersT (''userId'', js_get (verifyToken e ev) ''userId'')
                (''hasStorefront'', JBool True) = Some st'"
    and b: "b = JObj [(''message'', JStr ''Storefront created successfully''),
                      (''storefront'', JObj (new_storefront e (verifyToken e ev) r))]"
    by blast
  let ?sf = "new_storefront e (verifyToken e ev) r"
  have key: "map_of ?sf ''storeId'' = Some (JStr (uuidv4 e))" by (simp add: new_storefront_def)
  from put have "st1 StorefrontsT = put_item ''storeId'' ?sf (st StorefrontsT)"
    by (auto simp: send_put_def split: if_splits)
  moreover from upd have "st' StorefrontsT = st1 StorefrontsT"
    by (auto simp: send_update_def split: if_splits)
  ultimately have "find (holds (''storeId'', JStr (uuidv4 e))) (st' StorefrontsT) = Some ?sf"
    using find_put_item [OF key] by simp
  moreover have "js_get b ''storefront'' = JObj ?sf" using b by simp
  moreover have "map_of ?sf ''owner'' = Some (js_get (verifyToken e ev) ''userId'')"
    "map_of ?sf ''ownerName'' = Some (js_get (verifyToken e ev) ''email'')"
    by (simp_all add: new_storefront_def)
  ultimately show ?thesis by blast
qed

text \<open>
  Claim C9 fails on the display name. Alice, whose account's name is \<open>Alice\<close>, creates
  a storefront: its stored \<open>ownerName\<close> is \<open>alice@example.com\<close>.
\<close>

theorem C9_owner_name_is_email_counterexample:
  "find (holds (''userId'', JStr ''u-1'')) (users_db UsersT) = Some alice
   \<and> map_of alice ''name'' = Some (JStr ''Alice'')
   \<and> verifyToken env_ok (request ''tok-seller'' store_body) = seller_payload
   \<and> js_get seller_payload ''userId'' = JStr ''u-1''
   \<and> status (fst (handleCreateStorefront env_ok users_db (request ''tok-seller'' store_body))) = 201
   \<and> snd (handleCreateStorefront env_ok users_db (request ''tok-seller'' store_body)) StorefrontsT
       = [alice_store]
   \<and> map_of alice_store ''ownerName'' = Some (JStr ''alice@example.com'')
   \<and> map_of alice_store ''ownerName'' \<noteq> map_of alice ''name''"
proof -
  have tok: "verifyToken env_ok (request ''tok-seller'' store_body) = seller_payload"
    by (simp add: verifyToken_def auth_header_def request_def startsWith_def env_ok_def)
  have put: "send_put env_ok users_db StorefrontsT alice_store
             = Some (users_db(StorefrontsT := [alice_store]))"
    by (simp add: send_put_def env_ok_def alice_store_def new_storefront_def store_body_def
        seller_payload_def put_item_def users_db_def)
  have pb: "parse_body (ev_body (request ''tok-seller'' store_body)) = Some store_body"
    by (simp add: request_def store_body_def)
  have fields: "truthy (js_get store_body ''name'')" "truthy (js_get store_body ''description'')"
    "truthy (js_get store_body ''category'')"
    by (simp_all add: store_body_def)
  have who: "truthy seller_payload" "js_get seller_payload ''role'' = JStr ''seller''"
    "js_get seller_payload ''userId'' = JStr ''u-1''"
    by (simp_all add: seller_payload_def)
  obtain st2 where upd: "send_update env_ok (users_db(StorefrontsT := [alice_store])) UsersT
               (''userId'', JStr ''u-1'') (''hasStorefront'', JBool True) = Some st2"
    and st2: "st2 StorefrontsT = [alice_store]"
    by (simp add: send_update_def env_ok_def)
  have "handleCreateStorefront env_ok users_db (request ''tok-seller'' store_body)
        = (Resp 201 (JObj [(''message'', JStr ''Storefront created successfully''),
                           (''storefront'', JObj alice_store)]), st2)"
    using put upd
    by (simp add: handleCreateStorefront_def tok pb fields who sendResponse_def
        alice_store_def [symmetric] del: js_get.simps)
  then have run: "status (fst (handleCreateStorefront env_ok users_db (request ''tok-seller'' store_body))) = 201
     \<and> snd (handleCreateStorefront env_ok users_db (request ''tok-seller'' store_body)) StorefrontsT
         = [alice_store]"
    using st2 by simp
  have a: "find (holds (''userId'', JStr ''u-1'')) (users_db UsersT) = Some alice"
    "map_of alice ''name'' = Some (JStr ''Alice'')"
    by (simp_all add: users_db_def holds_def alice_def)
  have s: "map_of alice_store ''ownerName'' = Some (JStr ''alice@example.com'')"
    "js_get seller_payload ''userId'' = JStr ''u-1''"
    by (simp_all add: alice_store_def new_storefront_def seller_payload_def)
  from tok run a s show ?thesis by simp
qed

lemma createStorefront_example:
  "handleCreateStorefront env_ok users_db (request ''tok-seller'' store_body)
   = (Resp 201 (JObj [(''message'', JStr ''Storefront created successfully''),
                      (''storefront'', JObj alice_store)]), shop_after)"
proof -
  have tok: "verifyToken env_ok (request ''tok-seller'' store_body) = seller_payload"
    by (simp add: verifyToken_def auth_header_def request_def startsWith_def env_ok_def)
  have put: "send_put env_ok users_db StorefrontsT alice_store
             = Some (users_db(StorefrontsT := [alice_store]))"
    by (simp add: send_put_def env_ok_def alice_store_def new_storefront_def store_body_def
        seller_payload_def put_item_def users_db_def)
  have pb: "parse_body (ev_body (request ''tok-seller'' store_body)) = Some store_body"
    by (simp add: request_def store_body_def)
  have fields: "truthy (js_get store_body ''name'')" "truthy (js_get store_body ''description'')"
    "truthy (js_get store_body ''category'')"
    by (simp_all add: store_body_def)
  have who: "truthy seller_payload" "js_get seller_payload ''role'' = JStr ''seller''"
    "js_get seller_payload ''userId'' = JStr ''u-1''"
    by (simp_all add: seller_payload_def)
  have upd: "send_update env_ok (users_db(StorefrontsT := [alice_store])) UsersT
               (''userId'', JStr ''u-1'') (''hasStorefront'', JBool True) = Some shop_after"
    by (simp add: send_update_def env_ok_def shop_after_def update_item_def users_db_def
        holds_def alice_def fun_upd_twist)
  show ?thesis
    using put upd
    by (simp add: handleCreateStorefront_def tok pb fields who sendResponse_def
        alice_store_def [symmetric] del: js_get.simps)
qed

text \<open>Alice's storefront, as stored: owner \<open>u-1\<close>, owner name her email.\<close>

theorem C9_storefront_owner_fields_witness:
  "handleCreateStorefront env_ok users_db (request ''tok-seller'' store_body)
     = (Resp 201 (JObj [(''message'', JStr ''Storefront created successfully''),
                        (''storefront'', JObj alice_store)]), shop_after)
   \<and> (\<exists>sf. find (holds (''storeId'', JStr ''id-1'')) (shop_after StorefrontsT) = Some sf
          \<and> map_of sf ''owner'' = Some (JStr ''u-1'')
          \<and> map_of sf ''ownerName'' = Some (JStr ''alice@example.com''))"
proof -
  have tok: "verifyToken env_ok (request ''tok-seller'' store_body) = seller_payload"
    by (simp add: verifyToken_def auth_header_def request_def startsWith_def env_ok_def)
  have ids: "uuidv4 env_ok = ''id-1''" "js_get seller_payload ''userId'' = JStr ''u-1''"
    "js_get seller_payload ''email'' = JStr ''alice@example.com''"
    by (simp_all add: env_ok_def seller_payload_def)
  from C9_storefront_owner_fields [OF createStorefront_example]
  have "\<exists>sf. find (holds (''storeId'', JStr ''id-1'')) (shop_after StorefrontsT) = Some sf
          \<and> map_of sf ''owner'' = Some (JStr ''u-1'')
          \<and> map_of sf ''ownerName'' = Some (JStr ''alice@example.com'')"
    unfolding tok ids by blast
  with createStorefront_example show ?thesis by simp
qed

subsection \<open>Errors and the store (C8)\<close>

lemma createStorefront_noupdate_example:
  "handleCreateStorefront env_noupdate users_db (request ''tok-seller'' store_body)
     = (Resp 500 (err ''Failed to create storefront''), users_db(StorefrontsT := [alice_store]))"
proof -
  have tok: "verifyToken env_noupdate (request ''tok-seller'' store_body) = seller_payload"
    by (simp add: verifyToken_def auth_header_def request_def startsWith_def env_noupdate_def
        env_ok_def)
  have same: "new_storefront env_noupdate seller_payload store_body = alice_store"
    by (simp add: new_storefront_def alice_store_def env_noupdate_def)
  have put: "send_put env_noupdate users_db StorefrontsT alice_store
             = Some (users_db(StorefrontsT := [alice_store]))"
    by (simp add: send_put_def env_noupdate_def env_ok_def alice_store_def new_storefront_def
        store_body_def seller_payload_def put_item_def users_db_def)
  have pb: "parse_body (ev_body (request ''tok-seller'' store_body)) = Some store_body"
    by (simp add: request_def store_body_def)
  have fields: "truthy (js_get store_body ''name'')" "truthy (js_get store_body ''description'')"
    "truthy (js_get store_body ''category'')"
    by (simp_all add: store_body_def)
  have who: "truthy seller_payload" "js_get seller_payload ''role'' = JStr ''seller''"
    "js_get seller_payload ''userId'' = JStr ''u-1''"
    by (simp_all add: seller_payload_def)
  have upd: "send_update env_noupdate (users_db(StorefrontsT := [alice_store])) UsersT
               (''userId'', JStr ''u-1'') (''hasStorefront'', JBool True) = None"
    by (simp add: send_update_def env_noupdate_def)
  show ?thesis
    using put upd
    by (simp add: handleCreateStorefront_def tok pb fields who sendResponse_def same
        del: js_get.simps)
qed

text \<open>
  Claim C8 fails at create-storefront. The put of the storefront succeeds and the update
  of the owner's flag throws: the caller is answered 500, the storefront is in the
  store, and the account's flag is still false.
\<close>

theorem C8_partial_storefront_counterexample:
  "handleCreateStorefront env_noupdate users_db (request ''tok-seller'' store_body)
     = (Resp 500 (err ''Failed to create storefront''), users_db(StorefrontsT := [alice_store]))
   \<and> users_db StorefrontsT = []
   \<and> (users_db(StorefrontsT := [alice_store])) UsersT = [alice]
   \<and> map_of alice ''hasStorefront'' = Some (JBool False)"
  using createStorefront_noupdate_example by (simp add: users_db_def alice_def)

lemma reads_keep_store:
  "snd (handleLogin e st ev) = st"
  "snd (handleGetProfile e st ev) = st"
  "snd (handleGetStorefront e st ev) = st"
  "snd (handleGetMyStorefronts e st ev) = st"
  "snd (handleListStorefronts e st ev) = st"
  "snd (handleGetItems e st ev) = st"
  "snd (handleGetReviews e st ev) = st"
  "snd (handleGetOrders e st ev) = st"
  by (auto simp: handleLogin_def handleGetProfile_def handleGetStorefront_def
      handleGetMyStorefronts_def handleListStorefronts_def handleGetItems_def
      handleGetReviews_def handleGetOrders_def Let_def
      split: option.splits if_splits list.splits prod.splits)

lemma register_error:
  assumes "is_error (fst (handleRegister e st ev))"
  shows "snd (handleRegister e st ev) = st
         \<or> (\<exists>r em pw st1. parse_body (ev_body ev) = Some r
               \<and> js_get r ''email'' = JStr em \<and> js_get r ''password'' = JStr pw
               \<and> send_put e st UsersT (new_user e em (js_get r ''name'') pw (js_get r ''role''))
                     = Some st1
               \<and> jwt_sign e (token_payload (JStr (uuidv4 e)) (JStr (toLowerCase em))
                                (js_get r ''role'')) = None
               \<and> snd (handleRegister e st ev) = st1)"
proof (cases "parse_body (ev_body ev)")
  case None
  then show ?thesis by (simp add: handleRegister_def)
next
  case (Some r)
  show ?thesis
  proof (cases "the_string (js_get r ''password'')")
    case None
    then show ?thesis using Some
      by (auto simp: handleRegister_def Let_def split: option.splits if_splits)
  next
    case pw: (Some pw)
    show ?thesis
    proof (cases "the_string (js_get r ''email'')")
      case None
      then show ?thesis using Some pw
        by (auto simp: handleRegister_def Let_def split: option.splits if_splits)
    next
      case em: (Some em)
      from pw em have v: "js_get r ''password'' = JStr pw" "js_get r ''email'' = JStr em"
        by (simp_all add: the_string_Some)
      show ?thesis
        using assms Some v
        by (auto simp: handleRegister_def is_error_def sendResponse_def Let_def
            split: option.splits if_splits)
    qed
  qed
qed

lemma nosecret_example:
  "handleRegister env_nosecret empty_db
     (request [] (register_body ''Alice'' ''Alice@Example.com'' ''secret1''))
   = (Resp 500 (err ''Failed to create user''), empty_db(UsersT := [alice_new]))"
proof -
  have u: "new_user env_nosecret ''Alice@Example.com'' (JStr ''Alice'') ''secret1''
             (JStr ''seller'') = alice_new"
    by (simp add: alice_new_def new_user_def env_nosecret_def env_u1_def env_ok_def)
  have taken: "email_taken env_nosecret empty_db (JStr ''Alice@Example.com'') = Some False"
    by (simp add: email_taken_def send_query_def env_nosecret_def env_u1_def env_ok_def
        emailQuery_def run_query_def empty_db_def)
  have put: "send_put env_nosecret empty_db UsersT alice_new
               = Some (empty_db(UsersT := [alice_new]))"
    by (simp add: send_put_def env_nosecret_def env_u1_def env_ok_def alice_new_def
        new_user_def put_item_def empty_db_def)
  have tok: "jwt_sign env_nosecret
               (token_payload (JStr (uuidv4 env_nosecret))
                  (JStr (toLowerCase ''Alice@Example.com'')) (JStr ''seller'')) = None"
    by (simp add: env_nosecret_def)
  show ?thesis
    using taken put tok
    by (simp add: handleRegister_def request_def register_body_def js_lt_def sendResponse_def u)
qed

lemma addItem_error_keeps:
  "is_error (fst (handleAddItem e st ev)) \<Longrightarrow> snd (handleAddItem e st ev) = st"
  by (auto simp: handleAddItem_def is_error_def sendResponse_def Let_def
      split: option.splits if_splits)

lemma createReview_error_keeps:
  "is_error (fst (handleCreateReview e st ev)) \<Longrightarrow> snd (handleCreateReview e st ev) = st"
  by (auto simp: handleCreateReview_def is_error_def sendResponse_def Let_def
      split: option.splits if_splits)

lemma createOrder_error_keeps:
  "is_error (fst (handleCreateOrder e st ev)) \<Longrightarrow> snd (handleCreateOrder e st ev) = st"
  by (auto simp: handleCreateOrder_def is_error_def sendResponse_def Let_def
      split: option.splits if_splits)

lemma createStorefront_error:
  assumes "is_error (fst (handleCreateStorefront e st ev))"
  shows "snd (handleCreateStorefront e st ev) = st
         \<or> (\<exists>r st1. parse_body (ev_body ev) = Some r
               \<and> send_put e st StorefrontsT (new_storefront e (verifyToken e ev) r) = Some st1
               \<and> send_update e st1 UsersT (''userId'', js_get (verifyToken e ev) ''userId'')
                    (''hasStorefront'', JBool True) = None
               \<and> snd (handleCreateStorefront e st ev) = st1)"
  using assms
  by (auto simp: handleCreateStorefront_def is_error_def sendResponse_def Let_def
      split: option.splits if_splits)

text \<open>
  Claim C8, amended. An operation that answers with an error leaves the store as it
  was, with two exceptions. Create-storefront whose put of the storefront succeeded and
  whose update of the owner's flag threw answers 500 with the storefront stored and
  the flag not set. Register whose put of the account succeeded and whose signing of
  the token threw answers 500 with the account stored. No operation is transactional.
\<close>

theorem C8_errors_and_the_store:
  assumes "is_error (fst (run op e st ev))"
  shows "snd (run op e st ev) = st
         \<or> (op = CreateStorefront
             \<and> (\<exists>r st1. parse_body (ev_body ev) = Some r
                   \<and> send_put e st StorefrontsT (new_storefront e (verifyToken e ev) r) = Some st1
                   \<and> send_update e st1 UsersT (''userId'', js_get (verifyToken e ev) ''userId'')
                        (''hasStorefront'', JBool True) = None
                   \<and> snd (run op e st ev) = st1))
         \<or> (op = Register
             \<and> (\<exists>r em pw st1. parse_body (ev_body ev) = Some r
                   \<and> js_get r ''email'' = JStr em \<and> js_get r ''password'' = JStr pw
                   \<and> send_put e st UsersT
                         (new_user e em (js_get r ''name'') pw (js_get r ''role'')) = Some st1
                   \<and> jwt_sign e (token_payload (JStr (uuidv4 e)) (JStr (toLowerCase em))
                                    (js_get r ''role'')) = None
                   \<and> snd (run op e st ev) = st1))"
proof (cases op)
  case Register
  then show ?thesis using assms register_error [of e st ev] by simp
next
  case CreateStorefront
  then show ?thesis using assms createStorefront_error [of e st ev] by simp
next
  case AddItem
  then show ?thesis using assms addItem_error_keeps by simp
next
  case CreateReview
  then show ?thesis using assms createReview_error_keeps by simp
next
  case CreateOrder
  then show ?thesis using assms createOrder_error_keeps by simp
qed (simp_all add: reads_keep_store)

text \<open>
  A review with rating 0 is answered 400 and the store is as before; the storefront
  whose flag update throws is answered 500 and is in the store; the account whose
  token cannot be signed is answered 500 and is in the store.
\<close>

theorem C8_errors_and_the_store_witness:
  "is_error (fst (run CreateReview env_ok shop_db
               (request ''tok-buyer'' (review_body (JNum (Fin 0)) ''fine''))))
   \<and> snd (run CreateReview env_ok shop_db
            (request ''tok-buyer'' (review_body (JNum (Fin 0)) ''fine''))) = shop_db
   \<and> is_error (fst (run CreateStorefront env_noupdate users_db (request ''tok-seller'' store_body)))
   \<and> snd (run CreateStorefront env_noupdate users_db (request ''tok-seller'' store_body))
       = users_db(StorefrontsT := [alice_store])
   \<and> users_db(StorefrontsT := [alice_store]) \<noteq> users_db
   \<and> is_error (fst (run Register env_nosecret empty_db
                  (request [] (register_body ''Alice'' ''Alice@Example.com'' ''secret1''))))
   \<and> snd (run Register env_nosecret empty_db
            (request [] (register_body ''Alice'' ''Alice@Example.com'' ''secret1'')))
       = empty_db(UsersT := [alice_new])
   \<and> empty_db(UsersT := [alice_new]) \<noteq> empty_db"
proof -
  let ?ev = "request ''tok-buyer'' (review_body (JNum (Fin 0)) ''fine'')"
  let ?reg = "request [] (register_body ''Alice'' ''Alice@Example.com'' ''secret1'')"
  have rr: "review_request env_ok ?ev (review_body (JNum (Fin 0)) ''fine'')"
    by (simp add: review_request_def request_def review_body_def verifyToken_def auth_header_def
        startsWith_def env_ok_def buyer_payload_def)
  have out: "\<not> rating_in_range (js_get (review_body (JNum (Fin 0)) ''fine'') ''rating'')"
    by (simp add: rating_in_range_def review_body_def js_lt_def)
  have e1: "is_error (fst (run CreateReview env_ok shop_db ?ev))"
    using createReview_rating_out [OF rr out, of shop_db] by (simp add: is_error_def)
  from C8_errors_and_the_store [OF e1]
  have k1: "snd (run CreateReview env_ok shop_db ?ev) = shop_db" by simp
  have e2: "is_error (fst (run CreateStorefront env_noupdate users_db
                            (request ''tok-seller'' store_body)))"
    by (simp add: createStorefront_noupdate_example is_error_def)
  have ne: "users_db(StorefrontsT := [alice_store]) \<noteq> users_db"
  proof
    assume "users_db(StorefrontsT := [alice_store]) = users_db"
    then have "(users_db(StorefrontsT := [alice_store])) StorefrontsT = users_db StorefrontsT"
      by simp
    then show False by (simp add: users_db_def)
  qed
  from C8_errors_and_the_store [OF e2]
  have k2: "snd (run CreateStorefront env_noupdate users_db (request ''tok-seller'' store_body))
            = users_db(StorefrontsT := [alice_store])"
    by (simp add: createStorefront_noupdate_example)
  have e3: "is_error (fst (run Register env_nosecret empty_db ?reg))"
    by (simp add: nosecret_example is_error_def)
  have ne3: "empty_db(UsersT := [alice_new]) \<noteq> empty_db"
  proof
    assume "empty_db(UsersT := [alice_new]) = empty_db"
    then have "(empty_db(UsersT := [alice_new])) UsersT = empty_db UsersT" by simp
    then show False by (simp add: empty_db_def)
  qed
  from C8_errors_and_the_store [OF e3]
  have k3: "snd (run Register env_nosecret empty_db ?reg) = empty_db(UsersT := [alice_new])"
    by (simp add: nosecret_example)
  from e1 k1 e2 k2 ne e3 k3 ne3 show ?thesis by simp
qed

subsection \<open>The stored review (C10)\<close>

lemma shop_fits: "fits env_ok (shop_db ReviewsT)"
  by (simp add: fits_def page_simps env_ok_def shop_db_def)

lemma last_dropWhile: "dropWhile P xs \<noteq> [] \<Longrightarrow> last (dropWhile P xs) = last xs"
  by (induction xs) (auto split: if_splits)

lemma dropWhile_self: "xs = [] \<or> \<not> P (hd xs) \<Longrightarrow> dropWhile P xs = xs"
  by (cases xs) auto

lemma trim_idem: "trim (trim c) = trim c"
proof (cases "trim c = []")
  case True
  have "trim [] = []" by (simp add: trim_def)
  with True show ?thesis by metis
next
  case False
  let ?a = "dropWhile is_ws c"
  let ?b = "dropWhile is_ws (rev ?a)"
  have t: "trim c = rev ?b" by (simp add: trim_def)
  from False t have b: "?b \<noteq> []" by simp
  then have a: "?a \<noteq> []" by (metis dropWhile.simps(1) rev.simps(1))
  from b have hb: "\<not> is_ws (hd ?b)" by (rule hd_dropWhile)
  from a have ha: "\<not> is_ws (hd ?a)" by (rule hd_dropWhile)
  have "last ?b = last (rev ?a)" using b by (rule last_dropWhile)
  also have "\<dots> = hd ?a" using a by (simp add: last_rev)
  finally have "hd (rev ?b) = hd ?a" using b by (simp add: hd_rev)
  with ha have "\<not> is_ws (hd (rev ?b))" by simp
  then have 1: "dropWhile is_ws (rev ?b) = rev ?b" by (simp add: dropWhile_self)
  from hb have 2: "dropWhile is_ws ?b = ?b" by (simp add: dropWhile_self del: dropWhile_idem)
  have "trim (rev ?b) = rev (dropWhile is_ws (rev (dropWhile is_ws (rev ?b))))"
    by (simp only: trim_def)
  also have "\<dots> = rev ?b" by (simp only: 1 rev_rev_ident 2)
  finally show ?thesis by (simp only: t)
qed

lemma createReview_created:
  assumes "handleCreateReview e st ev = (Resp 201 b, st')"
  shows "\<exists>r c. parse_body (ev_body ev) = Some r \<and> js_get r ''comment'' = JStr c
           \<and> trim c \<noteq> [] \<and> rating_in_range (js_get r ''rating'')
           \<and> send_put e st ReviewsT
                (new_review e (js_get r ''itemId'') (js_get (verifyToken e ev) ''userId'')
                   (js_get r ''rating'') c) = Some st'"
proof -
  from assms obtain r where r: "parse_body (ev_body ev) = Some r"
    by (auto simp: handleCreateReview_def Let_def unauthorized_def sendResponse_def
        split: option.splits if_splits)
  from assms r obtain c where "the_string (js_get r ''comment'') = Some c"
    by (auto simp: handleCreateReview_def Let_def unauthorized_def sendResponse_def
        split: option.splits if_splits)
  then have c: "js_get r ''comment'' = JStr c" by (rule the_string_Some)
  show ?thesis
    using assms r c
    by (auto simp: handleCreateReview_def Let_def unauthorized_def sendResponse_def
        rating_in_range_def split: option.splits if_splits)
qed

lemma parseInt_in_range:
  assumes "1 \<le> q" "q \<le> 5"
  shows "parseInt (JNum (Fin q)) = Fin (of_int \<lfloor>q\<rfloor>)"
proof -
  have "\<bar>q\<bar> = q" "sgn q = 1" "q \<noteq> 0" using assms by (simp_all add: sgn_if)
  moreover have "\<not> q < 1 / 10 ^ 6" using assms by simp
  moreover have "\<not> (10 ^ 21 \<le> q)" using assms by simp
  ultimately show ?thesis by simp
qed

text \<open>
  Claim C10, amended to ratings given as JSON numbers. A request without a rating, or
  with a number below 1 or above 5, is answered 400 and nothing is stored. A review that
  create-review stores for a numeric rating has as rating its integer part, an integer
  from 1 to 5, and a comment that is trimmed and not empty. A fractional rating within
  the range is stored truncated, not rejected.
\<close>

theorem C10_stored_review_invariant:
  assumes body: "parse_body (ev_body ev) = Some r"
  shows "(review_request e ev r
          \<and> (js_get r ''rating'' = JUndef
              \<or> (\<exists>q. js_get r ''rating'' = JNum (Fin q) \<and> (q < 1 \<or> 5 < q))) \<longrightarrow>
            handleCreateReview e st ev =
              (Resp 400 (err ''rating is required and must be between 1 and 5''), st))
         \<and> (handleCreateReview e st ev = (Resp 201 b, st') \<and> js_get r ''rating'' = JNum (Fin q) \<longrightarrow>
              (\<exists>rv c. find (holds (''reviewId'', JStr (uuidv4 e))) (st' ReviewsT) = Some rv
                 \<and> map_of rv ''rating'' = Some (JNum (Fin (of_int \<lfloor>q\<rfloor>)))
                 \<and> 1 \<le> \<lfloor>q\<rfloor> \<and> \<lfloor>q\<rfloor> \<le> 5
                 \<and> map_of rv ''comment'' = Some (JStr c) \<and> c \<noteq> [] \<and> trim c = c))"
proof (intro conjI impI)
  assume a: "review_request e ev r
          \<and> (js_get r ''rating'' = JUndef
              \<or> (\<exists>q. js_get r ''rating'' = JNum (Fin q) \<and> (q < 1 \<or> 5 < q)))"
  then have out: "\<not> rating_in_range (js_get r ''rating'')"
    by (auto simp: rating_in_range_def js_lt_def js_gt_def)
  from a have req: "review_request e ev r" by simp
  show "handleCreateReview e st ev =
              (Resp 400 (err ''rating is required and must be between 1 and 5''), st)"
    by (rule createReview_rating_out [OF req out])
next
  assume a: "handleCreateReview e st ev = (Resp 201 b, st') \<and> js_get r ''rating'' = JNum (Fin q)"
  then have ok: "handleCreateReview e st ev = (Resp 201 b, st')"
    and num: "js_get r ''rating'' = JNum (Fin q)" by simp_all
  from createReview_created [OF ok] body num obtain c where
    c: "trim c \<noteq> []" and rng: "rating_in_range (JNum (Fin q))"
    and put: "send_put e st ReviewsT
                (new_review e (js_get r ''itemId'') (js_get (verifyToken e ev) ''userId'')
                   (JNum (Fin q)) c) = Some st'"
    by auto
  let ?rv = "new_review e (js_get r ''itemId'') (js_get (verifyToken e ev) ''userId'') (JNum (Fin q)) c"
  from rng have q: "1 \<le> q" "q \<le> 5"
    by (simp_all add: rating_in_range_def js_lt_def js_gt_def)
  have key: "map_of ?rv ''reviewId'' = Some (JStr (uuidv4 e))" by (simp add: new_review_def)
  from put have "st' ReviewsT = put_item ''reviewId'' ?rv (st ReviewsT)"
    by (auto simp: send_put_def split: if_splits)
  then have f: "find (holds (''reviewId'', JStr (uuidv4 e))) (st' ReviewsT) = Some ?rv"
    using find_put_item [OF key] by simp
  have rt: "map_of ?rv ''rating'' = Some (JNum (Fin (of_int \<lfloor>q\<rfloor>)))"
    using parseInt_in_range [OF q] by (simp add: new_review_def)
  have fl: "1 \<le> \<lfloor>q\<rfloor>" "\<lfloor>q\<rfloor> \<le> 5" using q by (simp_all add: le_floor_iff floor_le_iff)
  have cm: "map_of ?rv ''comment'' = Some (JStr (trim c))" by (simp add: new_review_def)
  from f rt fl cm c trim_idem [of c]
  show "\<exists>rv c. find (holds (''reviewId'', JStr (uuidv4 e))) (st' ReviewsT) = Some rv
                 \<and> map_of rv ''rating'' = Some (JNum (Fin (of_int \<lfloor>q\<rfloor>)))
                 \<and> 1 \<le> \<lfloor>q\<rfloor> \<and> \<lfloor>q\<rfloor> \<le> 5
                 \<and> map_of rv ''comment'' = Some (JStr c) \<and> c \<noteq> [] \<and> trim c = c"
    by blast
qed

lemma createReview_fraction_example:
  "handleCreateReview env_ok shop_db
     (request ''tok-seller'' (review_body (JNum (Fin (3 / 2))) '' nice ''))
   = (Resp 201 (JObj [(''message'', JStr ''Review created successfully''),
                      (''review'', JObj review_c)]),
      shop_db(ReviewsT := [review_a, review_b, review_c]))"
proof -
  let ?b = "review_body (JNum (Fin (3 / 2))) '' nice ''"
  have toks: "verifyToken env_ok (request ''tok-seller'' ?b) = seller_payload"
    by (simp add: verifyToken_def auth_header_def request_def startsWith_def env_ok_def)
  have reqs: "review_request env_ok (request ''tok-seller'' ?b) ?b"
    unfolding review_request_def toks
    by (simp add: request_def review_body_def seller_payload_def)
  have v: "valid_review ?b"
    by (simp add: valid_review_def rating_in_range_def review_body_def js_lt_def js_gt_def
        trim_def is_ws_def)
  have item: "send_get env_ok shop_db ItemsT (''id'', js_get ?b ''itemId'') = Some (Some mug)"
    by (simp add: send_get_def env_ok_def shop_db_def review_body_def holds_def mug_def)
  have ls: "send_query env_ok shop_db (existingQuery (js_get ?b ''itemId'')
              (js_get (verifyToken env_ok (request ''tok-seller'' ?b)) ''userId'')) \<noteq> None
            \<or> send_scan env_ok shop_db (existingScan (js_get ?b ''itemId'')
              (js_get (verifyToken env_ok (request ''tok-seller'' ?b)) ''userId'')) \<noteq> None"
    unfolding toks
    by (simp add: send_query_def env_ok_def existingQuery_def review_body_def seller_payload_def)
  have ids: "js_get ?b ''itemId'' = JStr ''item-1''" "js_get ?b ''rating'' = JNum (Fin (3 / 2))"
    "comment_of ?b = '' nice ''" "js_get seller_payload ''userId'' = JStr ''u-1''"
    by (simp_all add: review_body_def comment_of_def seller_payload_def)
  have exs: "\<not> review_exists shop_db (JStr ''item-1'') (JStr ''u-1'')"
    by (simp add: review_exists_def shop_db_def holds_def review_a_def review_b_def)
  have fl: "\<lfloor>3 / 2 :: rat\<rfloor> = 1" by (simp add: floor_eq_iff)
  have put: "send_put env_ok shop_db ReviewsT review_c
             = Some (shop_db(ReviewsT := [review_a, review_b, review_c]))"
    by (simp add: send_put_def env_ok_def review_c_def new_review_def shop_db_def put_item_def
        review_a_def review_b_def fl)
  show ?thesis
    using createReview_guard [OF reqs v item ls fits_guard [where st = shop_db, OF shop_fits]] exs put
    by (simp add: toks ids review_c_def [symmetric])
qed

text \<open>
  Claim C10 fails on a rating that is no integer. Rating 1.5 is within the range the
  handler checks, so the request is answered 201, and the review is stored with
  rating 1.
\<close>

theorem C10_fractional_rating_counterexample:
  "handleCreateReview env_ok shop_db
     (request ''tok-seller'' (review_body (JNum (Fin (3 / 2))) '' nice ''))
   = (Resp 201 (JObj [(''message'', JStr ''Review created successfully''),
                      (''review'', JObj review_c)]),
      shop_db(ReviewsT := [review_a, review_b, review_c]))
   \<and> map_of review_c ''rating'' = Some (JNum (Fin 1))
   \<and> (3 / 2 :: rat) \<noteq> of_int \<lfloor>3 / 2 :: rat\<rfloor>"
proof -
  have fl: "\<lfloor>3 / 2 :: rat\<rfloor> = 1" by (simp add: floor_eq_iff)
  have "map_of review_c ''rating'' = Some (JNum (Fin 1))"
    by (simp add: review_c_def new_review_def fl)
  with createReview_fraction_example fl show ?thesis by simp
qed

text \<open>
  The review stored for rating 1.5 and the comment \<open>" nice "\<close> has rating 1 and the
  comment \<open>"nice"\<close>; rating 6 is answered 400.
\<close>

theorem C10_stored_review_invariant_witness:
  "handleCreateReview env_ok shop_db
     (request ''tok-seller'' (review_body (JNum (Fin (3 / 2))) '' nice ''))
   = (Resp 201 (JObj [(''message'', JStr ''Review created successfully''),
                      (''review'', JObj review_c)]),
      shop_db(ReviewsT := [review_a, review_b, review_c]))
   \<and> (\<exists>rv c. find (holds (''reviewId'', JStr ''id-1''))
                 ((shop_db(ReviewsT := [review_a, review_b, review_c])) ReviewsT) = Some rv
          \<and> map_of rv ''rating'' = Some (JNum (Fin 1))
          \<and> map_of rv ''comment'' = Some (JStr c) \<and> c \<noteq> [] \<and> trim c = c)
   \<and> handleCreateReview env_ok shop_db
        (request ''tok-seller'' (review_body (JNum (Fin 6)) ''nice''))
       = (Resp 400 (err ''rating is required and must be between 1 and 5''), shop_db)"
proof -
  let ?b = "review_body (JNum (Fin (3 / 2))) '' nice ''"
  let ?b6 = "review_body (JNum (Fin 6)) ''nice''"
  have fl: "\<lfloor>3 / 2 :: rat\<rfloor> = 1" by (simp add: floor_eq_iff)
  have pb: "parse_body (ev_body (request ''tok-seller'' ?b)) = Some ?b"
    and pb6: "parse_body (ev_body (request ''tok-seller'' ?b6)) = Some ?b6"
    by (simp_all add: request_def review_body_def)
  have num: "js_get ?b ''rating'' = JNum (Fin (3 / 2))" by (simp add: review_body_def)
  have id: "uuidv4 env_ok = ''id-1''" by (simp add: env_ok_def)
  from C10_stored_review_invariant [OF pb, of env_ok shop_db _ _ "3 / 2"]
    createReview_fraction_example num
  have stored: "\<exists>rv c. find (holds (''reviewId'', JStr ''id-1''))
                 ((shop_db(ReviewsT := [review_a, review_b, review_c])) ReviewsT) = Some rv
          \<and> map_of rv ''rating'' = Some (JNum (Fin 1))
          \<and> map_of rv ''comment'' = Some (JStr c) \<and> c \<noteq> [] \<and> trim c = c"
    unfolding id fl by (auto simp del: js_get.simps fun_upd_apply)
  have req6: "review_request env_ok (request ''tok-seller'' ?b6) ?b6"
    by (simp add: review_request_def request_def review_body_def verifyToken_def auth_header_def
        startsWith_def env_ok_def seller_payload_def)
  have six: "\<exists>q. js_get ?b6 ''rating'' = JNum (Fin q) \<and> (q < 1 \<or> 5 < q)"
    by (simp add: review_body_def)
  from C10_stored_review_invariant [OF pb6, of env_ok shop_db] req6 six
  have rej: "handleCreateReview env_ok shop_db (request ''tok-seller'' ?b6)
       = (Resp 400 (err ''rating is required and must be between 1 and 5''), shop_db)"
    by blast
  from createReview_fraction_example stored rej show ?thesis by blast
qed

lemma string_number_examples:
  "string_to_number ''0.5e1'' = Fin 5"
  "parseInt_str ''0.5e1'' = Fin 0"
  "string_to_number ''abc'' = NaN"
  "parseInt_str ''abc'' = NaN"
  by code_simp+

text \<open>
  Ratings given as strings, which the amended claim C10 leaves out: the range check
  reads \<open>"0.5e1"\<close> as 5 and the stored value is \<open>parseInt("0.5e1")\<close>, 0; \<open>"abc"\<close> passes
  the range check (every comparison with NaN is false), and the put of NaN throws.
\<close>

lemma createReview_string_ratings:
  "handleCreateReview env_ok shop_db (request ''tok-seller'' (string_rating_body ''0.5e1''))
   = (Resp 201
        (JObj [(''message'', JStr ''Review created successfully''),
               (''review'', JObj (new_review env_ok (JStr ''item-1'') (JStr ''u-1'')
                                    (JStr ''0.5e1'') ''nice''))]),
      shop_db(ReviewsT := [review_a, review_b,
         new_review env_ok (JStr ''item-1'') (JStr ''u-1'') (JStr ''0.5e1'') ''nice'']))
   \<and> map_of (new_review env_ok (JStr ''item-1'') (JStr ''u-1'') (JStr ''0.5e1'') ''nice'') ''rating''
       = Some (JNum (Fin 0))
   \<and> handleCreateReview env_ok shop_db (request ''tok-seller'' (string_rating_body ''abc''))
       = (Resp 500 (err ''Failed to create review''), shop_db)"
proof -
  have toks: "\<And>s. verifyToken env_ok (request ''tok-seller'' (string_rating_body s)) = seller_payload"
    by (simp add: verifyToken_def auth_header_def request_def startsWith_def env_ok_def)
  have reqs: "\<And>s. review_request env_ok (request ''tok-seller'' (string_rating_body s))
                 (string_rating_body s)"
    unfolding review_request_def toks
    by (simp add: request_def string_rating_body_def seller_payload_def)
  have v: "valid_review (string_rating_body ''0.5e1'')" "valid_review (string_rating_body ''abc'')"
    by (simp_all add: valid_review_def rating_in_range_def string_rating_body_def js_lt_def
        js_gt_def string_number_examples trim_def is_ws_def)
  have item: "\<And>s. send_get env_ok shop_db ItemsT (''id'', js_get (string_rating_body s) ''itemId'')
                = Some (Some mug)"
    by (simp add: send_get_def env_ok_def shop_db_def string_rating_body_def holds_def mug_def)
  have ls: "\<And>s. send_query env_ok shop_db (existingQuery (js_get (string_rating_body s) ''itemId'')
              (js_get (verifyToken env_ok (request ''tok-seller'' (string_rating_body s))) ''userId''))
               \<noteq> None
            \<or> send_scan env_ok shop_db (existingScan (js_get (string_rating_body s) ''itemId'')
              (js_get (verifyToken env_ok (request ''tok-seller'' (string_rating_body s))) ''userId''))
               \<noteq> None"
    unfolding toks
    by (simp add: send_query_def env_ok_def existingQuery_def string_rating_body_def
        seller_payload_def)
  have ids: "\<And>s. js_get (string_rating_body s) ''itemId'' = JStr ''item-1''"
    "\<And>s. js_get (string_rating_body s) ''rating'' = JStr s"
    "\<And>s. comment_of (string_rating_body s) = ''nice''"
    "js_get seller_payload ''userId'' = JStr ''u-1''"
    by (simp_all add: string_rating_body_def comment_of_def seller_payload_def)
  have exs: "\<not> review_exists shop_db (JStr ''item-1'') (JStr ''u-1'')"
    by (simp add: review_exists_def shop_db_def holds_def review_a_def review_b_def)
  have put: "send_put env_ok shop_db ReviewsT
               (new_review env_ok (JStr ''item-1'') (JStr ''u-1'') (JStr ''0.5e1'') ''nice'')
             = Some (shop_db(ReviewsT := [review_a, review_b,
                  new_review env_ok (JStr ''item-1'') (JStr ''u-1'') (JStr ''0.5e1'') ''nice'']))"
    by (simp add: send_put_def env_ok_def new_review_def shop_db_def put_item_def
        review_a_def review_b_def trim_def is_ws_def string_number_examples)
  have nput: "send_put env_ok shop_db ReviewsT
               (new_review env_ok (JStr ''item-1'') (JStr ''u-1'') (JStr ''abc'') ''nice'') = None"
    by (simp add: send_put_def new_review_def string_number_examples)
  have r1: "handleCreateReview env_ok shop_db (request ''tok-seller'' (string_rating_body ''0.5e1''))
   = (Resp 201
        (JObj [(''message'', JStr ''Review created successfully''),
               (''review'', JObj (new_review env_ok (JStr ''item-1'') (JStr ''u-1'')
                                    (JStr ''0.5e1'') ''nice''))]),
      shop_db(ReviewsT := [review_a, review_b,
         new_review env_ok (JStr ''item-1'') (JStr ''u-1'') (JStr ''0.5e1'') ''nice'']))"
    using createReview_guard [OF reqs v(1) item ls fits_guard [where st = shop_db, OF shop_fits]] exs put by (simp add: toks ids)
  have r2: "handleCreateReview env_ok shop_db (request ''tok-seller'' (string_rating_body ''abc''))
       = (Resp 500 (err ''Failed to create review''), shop_db)"
    using createReview_guard [OF reqs v(2) item ls fits_guard [where st = shop_db, OF shop_fits]] exs nput by (simp add: toks ids)
  have st: "map_of (new_review env_ok (JStr ''item-1'') (JStr ''u-1'') (JStr ''0.5e1'') ''nice'') ''rating''
       = Some (JNum (Fin 0))"
    by (simp add: new_review_def string_number_examples)
  from r1 r2 st show ?thesis by simp
qed

subsection \<open>Stored ratings are numbers\<close>

lemma put_item_all: "list_all P xs \<Longrightarrow> P it \<Longrightarrow> list_all P (put_item k it xs)"
  by (auto simp: put_item_def list_all_iff)

lemma send_put_same:
  "send_put e st t it = Some st' \<Longrightarrow> st' t = put_item (key_attr t) it (st t)"
  by (auto simp: send_put_def split: if_splits)

lemma new_review_numeric:
  assumes "send_put e st ReviewsT (new_review e i u r c) = Some st'"
  shows "rating_numeric (new_review e i u r c)"
proof -
  from assms have "marshallable (JNum (parseInt r))"
    by (auto simp: send_put_def new_review_def split: if_splits)
  then show ?thesis
    by (cases "parseInt r") (simp_all add: rating_numeric_def new_review_def)
qed

lemma createReview_reviews:
  "snd (handleCreateReview e st ev) = st
   \<or> (\<exists>i u r c. send_put e st ReviewsT (new_review e i u r c)
         = Some (snd (handleCreateReview e st ev)))"
  by (auto simp: handleCreateReview_def Let_def split: option.splits if_splits)

lemma others_keep_reviews:
  "snd (handleRegister e st ev) ReviewsT = st ReviewsT"
  "snd (handleAddItem e st ev) ReviewsT = st ReviewsT"
  "snd (handleCreateOrder e st ev) ReviewsT = st ReviewsT"
  "snd (handleCreateStorefront e st ev) ReviewsT = st ReviewsT"
  by (auto simp: handleRegister_def handleAddItem_def handleCreateOrder_def
      handleCreateStorefront_def Let_def send_put_def send_update_def
      split: option.splits if_splits prod.splits)

text \<open>
  The condition of C3 on the ratings is kept by every operation: create-review, the
  only writer of reviews, stores the number \<open>parseInt\<close> returns, and the document
  client refuses NaN.
\<close>

lemma ratings_stay_numeric:
  assumes "list_all rating_numeric (st ReviewsT)"
  shows "list_all rating_numeric (snd (run op e st ev) ReviewsT)"
proof (cases op)
  case CreateReview
  from createReview_reviews [of e st ev] show ?thesis
  proof
    assume "snd (handleCreateReview e st ev) = st"
    then show ?thesis using assms CreateReview by simp
  next
    assume "\<exists>i u r c. send_put e st ReviewsT (new_review e i u r c)
              = Some (snd (handleCreateReview e st ev))"
    then obtain i u r c where
      p: "send_put e st ReviewsT (new_review e i u r c) = Some (snd (handleCreateReview e st ev))"
      by blast
    from send_put_same [OF p]
    have "snd (handleCreateReview e st ev) ReviewsT
               = put_item ''reviewId'' (new_review e i u r c) (st ReviewsT)"
      by simp
    then show ?thesis
      using assms CreateReview new_review_numeric [OF p] by (simp add: put_item_all)
  qed
qed (simp_all add: assms reads_keep_store others_keep_reviews)


text \<open>
  The reviews get-reviews returns are documents of the reviews table, so on a store
  whose ratings are numbers the condition of C3 holds of every response.
\<close>

lemma sort_insert_set: "set (sort_insert e x ys) = insert x (set ys)"
  by (induction ys) auto

lemma sort_reviews_set: "set (sort_reviews e rs) = set rs"
  by (induction rs) (simp_all add: sort_reviews_def sort_insert_set)

lemma lookup_subset:
  "send_query e st q = Some r \<Longrightarrow> set r \<subseteq> set (st (TableName q))"
  "send_scan e st s = Some r \<Longrightarrow> set r \<subseteq> set (st (ScanTableName s))"
proof -
  assume "send_query e st q = Some r"
  then have r: "r = run_query (doc_bytes e) st q"
    by (auto simp: send_query_def split: if_splits)
  have "set (first_page (doc_bytes e) page_bytes
               (filter (holds (KeyConditionExpression q)) (st (TableName q))))
          \<subseteq> set (st (TableName q))"
    using first_page_subset [of "doc_bytes e" page_bytes
        "filter (holds (KeyConditionExpression q)) (st (TableName q))"]
    by auto
  then show "set r \<subseteq> set (st (TableName q))"
    unfolding r run_query_def Let_def
    by (cases "Limit q") (auto dest: in_set_takeD)
next
  assume "send_scan e st s = Some r"
  then have r: "r = run_scan (doc_bytes e) st s"
    by (auto simp: send_scan_def split: if_splits)
  show "set r \<subseteq> set (st (ScanTableName s))"
    unfolding r run_scan_def
    using first_page_subset [of "doc_bytes e" page_bytes "st (ScanTableName s)"] by auto
qed

lemma getReviews_found:
  assumes "fst (handleGetReviews e st ev) = Resp 200 b"
  shows "\<exists>iid found.
           (send_query e st (reviewsQuery (JStr iid)) = Some found
            \<or> send_scan e st (reviewsScan (JStr iid)) = Some found)
           \<and> b = JObj [(''reviews'', JArr (map JObj (sort_reviews e found))),
                        (''averageRating'', JNum (averageRating e (sort_reviews e found))),
                        (''totalReviews'', JNum (Fin (of_nat (length (sort_reviews e found)))))]"
  using assms
  by (auto simp: handleGetReviews_def sendResponse_def Let_def split: option.splits if_splits)

lemma getReviews_numeric:
  assumes store: "list_all rating_numeric (st ReviewsT)"
    and ok: "fst (handleGetReviews e st ev) = Resp 200 b"
    and rs: "js_get b ''reviews'' = JArr (map JObj rs)"
  shows "list_all rating_numeric rs"
proof -
  from getReviews_found [OF ok] obtain iid found where
    f: "send_query e st (reviewsQuery (JStr iid)) = Some found
        \<or> send_scan e st (reviewsScan (JStr iid)) = Some found"
    and b: "b = JObj [(''reviews'', JArr (map JObj (sort_reviews e found))),
                      (''averageRating'', JNum (averageRating e (sort_reviews e found))),
                      (''totalReviews'', JNum (Fin (of_nat (length (sort_reviews e found)))))]"
    by blast
  from f have sub: "set found \<subseteq> set (st ReviewsT)"
    using lookup_subset(1) [of e st "reviewsQuery (JStr iid)" found]
      lookup_subset(2) [of e st "reviewsScan (JStr iid)" found]
    by (auto simp: reviewsQuery_def reviewsScan_def)
  from rs b have "map JObj (sort_reviews e found) = map JObj rs" by simp
  then have "sort_reviews e found = rs" by (rule map_JObj_inj)
  then have "set rs = set found" using sort_reviews_set [of e found] by simp
  with sub store show ?thesis by (auto simp: list_all_iff)
qed
end
